theory Spec2Isabelle
  imports Complex_Main "HOL-Library.Log_Nat" "HOL-Library.Word"
begin

section \<open>JavaScript values as the handlers of server.js see them\<close>

text \<open>
  Every handler of \<^verbatim>\<open>server.js\<close> reads fields of \<^verbatim>\<open>req.body\<close>, a value produced by
  \<^verbatim>\<open>express.json()\<close>, and tests them with JavaScript's own coercions (\<^verbatim>\<open>!x\<close>,
  \<^verbatim>\<open>Number(x)\<close>, \<^verbatim>\<open>x.length\<close>, \<^verbatim>\<open>===\<close>). The values are therefore modelled untyped.

  A number is a rational, \<^verbatim>\<open>NaN\<close> or one of the two infinities. The doubles are the
  rationals that \<open>round_double\<close> below leaves as they are, and every arithmetic
  operation rounds its exact result to the nearest double, as IEEE-754 prescribes. The
  sign of zero is not represented.
  A string is the list of its UTF-16 code units, and its \<^verbatim>\<open>length\<close> is the length of that
  list: a character outside the basic plane takes two code units.
\<close>

type_synonym code_unit = "16 word"

type_synonym js_string = "code_unit list"

text \<open>
  The string that a literal of the source denotes. The literals of \<^verbatim>\<open>server.js\<close> are ASCII,
  where the code unit of a character is its code.
\<close>

definition utf16 :: "string \<Rightarrow> js_string" where
  "utf16 s = map (\<lambda>c. of_nat (of_char c)) s"

datatype jsnum = NaN | NInf | Fin rat | PInf

datatype jsval =
    Undefined
  | Null
  | Bool bool
  | Num jsnum
  | Str js_string
  | Arr "jsval list"
  | Obj "(js_string \<times> jsval) list"

text \<open>A string literal and an object literal of the source.\<close>

abbreviation str :: "string \<Rightarrow> jsval" where
  "str s \<equiv> Str (utf16 s)"

abbreviation object :: "(string \<times> jsval) list \<Rightarrow> jsval" where
  "object kvs \<equiv> Obj (map (apfst utf16) kvs)"

datatype exn = TypeError

subsection \<open>Rounding to a double\<close>

text \<open>The exponent of a positive rational \<open>x\<close>: the integer \<open>e\<close> with \<open>2^e \<le> x < 2^(e+1)\<close>.\<close>

definition floor_log2 :: "rat \<Rightarrow> int" where
  "floor_log2 x =
     (let (p, q) = quotient_of x; d = bitlen p - bitlen q
      in if 2 powi d \<le> x then d else d - 1)"

text \<open>The nearest integer, a tie going to the even one.\<close>

definition round_half_even :: "rat \<Rightarrow> int" where
  "round_half_even x =
     (let f = \<lfloor>x\<rfloor>; r = x - of_int f
      in if r < 1 / 2 then f else if 1 / 2 < r then f + 1 else if even f then f else f + 1)"

text \<open>
  Round to nearest, ties to even, in binary64: 53 significant bits, the least exponent
  \<open>-1022\<close> (below it the spacing stays \<open>2^-1074\<close>), and a result of magnitude \<open>2^1024\<close> or
  more is an infinity.
\<close>

definition round_double :: "rat \<Rightarrow> jsnum" where
  "round_double x =
     (if x = 0 then Fin 0
      else
        let a = \<bar>x\<bar>;
            e = max (floor_log2 a) (- 1022);
            ulp = 2 powi (e - 52);
            m = of_int (round_half_even (a / ulp)) * ulp
        in if 2 powi 1024 \<le> m then (if x < 0 then NInf else PInf)
           else Fin (if x < 0 then - m else m))"

subsection \<open>Arithmetic and comparison of numbers\<close>

fun isNaN :: "jsnum \<Rightarrow> bool" where
  "isNaN NaN = True"
| "isNaN _ = False"

text \<open>\<^verbatim>\<open>a < b\<close> on numbers: false as soon as one side is \<^verbatim>\<open>NaN\<close>.\<close>

fun js_lt :: "jsnum \<Rightarrow> jsnum \<Rightarrow> bool" where
  "js_lt (Fin a) (Fin b) = (a < b)"
| "js_lt NInf (Fin b) = True"
| "js_lt NInf PInf = True"
| "js_lt (Fin a) PInf = True"
| "js_lt _ _ = False"

text \<open>\<^verbatim>\<open>a <= b\<close> on numbers: \<^verbatim>\<open>!(b < a)\<close>, but false when one side is \<^verbatim>\<open>NaN\<close>.\<close>

definition js_le :: "jsnum \<Rightarrow> jsnum \<Rightarrow> bool" where
  "js_le a b = (\<not> isNaN a \<and> \<not> isNaN b \<and> \<not> js_lt b a)"

fun js_neg :: "jsnum \<Rightarrow> jsnum" where
  "js_neg NaN = NaN"
| "js_neg NInf = PInf"
| "js_neg (Fin a) = Fin (- a)"
| "js_neg PInf = NInf"

fun js_add :: "jsnum \<Rightarrow> jsnum \<Rightarrow> jsnum" where
  "js_add (Fin a) (Fin b) = round_double (a + b)"
| "js_add NaN _ = NaN"
| "js_add _ NaN = NaN"
| "js_add PInf NInf = NaN"
| "js_add NInf PInf = NaN"
| "js_add PInf _ = PInf"
| "js_add _ PInf = PInf"
| "js_add NInf _ = NInf"
| "js_add _ NInf = NInf"

definition js_sub :: "jsnum \<Rightarrow> jsnum \<Rightarrow> jsnum" where
  "js_sub a b = js_add a (js_neg b)"

text \<open>The sign of a number that is not \<^verbatim>\<open>NaN\<close>: \<open>-1\<close>, \<open>0\<close> or \<open>1\<close>.\<close>

fun js_sgn :: "jsnum \<Rightarrow> rat" where
  "js_sgn (Fin a) = sgn a"
| "js_sgn PInf = 1"
| "js_sgn NInf = - 1"
| "js_sgn NaN = 0"

definition inf_of_sign :: "rat \<Rightarrow> jsnum" where
  "inf_of_sign r = (if r = 0 then NaN else if 0 < r then PInf else NInf)"

fun js_mul :: "jsnum \<Rightarrow> jsnum \<Rightarrow> jsnum" where
  "js_mul (Fin a) (Fin b) = round_double (a * b)"
| "js_mul NaN _ = NaN"
| "js_mul _ NaN = NaN"
| "js_mul a b = inf_of_sign (js_sgn a * js_sgn b)"

text \<open>
  \<^verbatim>\<open>a / b\<close>. The source divides by the literal \<^verbatim>\<open>100\<close> only; for a zero divisor the
  result takes the zero as positive.
\<close>

fun js_div :: "jsnum \<Rightarrow> jsnum \<Rightarrow> jsnum" where
  "js_div (Fin a) (Fin b) = (if b = 0 then inf_of_sign (sgn a) else round_double (a / b))"
| "js_div NaN _ = NaN"
| "js_div _ NaN = NaN"
| "js_div (Fin a) _ = Fin 0"
| "js_div a (Fin b) = inf_of_sign (js_sgn a * (if b < 0 then - 1 else 1))"
| "js_div _ _ = NaN"

text \<open>
  \<^verbatim>\<open>Math.round\<close>: the nearest integer, a tie going up. For a double the result is a
  double again, so nothing is rounded a second time.
\<close>

fun Math_round :: "jsnum \<Rightarrow> jsnum" where
  "Math_round (Fin a) = Fin (of_int \<lfloor>a + 1 / 2\<rfloor>)"
| "Math_round n = n"

subsection \<open>Coercions of values\<close>

text \<open>\<^verbatim>\<open>!x\<close> is \<open>\<not> truthy x\<close>.\<close>

fun truthy :: "jsval \<Rightarrow> bool" where
  "truthy Undefined = False"
| "truthy Null = False"
| "truthy (Bool b) = b"
| "truthy (Num n) = (\<not> isNaN n \<and> n \<noteq> Fin 0)"
| "truthy (Str s) = (s \<noteq> [])"
| "truthy (Arr xs) = True"
| "truthy (Obj kvs) = True"

text \<open>\<^verbatim>\<open>x == null\<close>.\<close>

fun nullish :: "jsval \<Rightarrow> bool" where
  "nullish Undefined = True"
| "nullish Null = True"
| "nullish _ = False"

text \<open>
  \<^verbatim>\<open>a === b\<close>, for operands that come from two different parses (a stored record, the
  body of the current request, an order fetched from the gateway): two arrays or two
  objects are then never the same reference, so the comparison is false for them.
\<close>

fun strict_eq :: "jsval \<Rightarrow> jsval \<Rightarrow> bool" where
  "strict_eq Undefined Undefined = True"
| "strict_eq Null Null = True"
| "strict_eq (Bool a) (Bool b) = (a = b)"
| "strict_eq (Num a) (Num b) = (\<not> isNaN a \<and> a = b)"
| "strict_eq (Str a) (Str b) = (a = b)"
| "strict_eq _ _ = False"

text \<open>
  \<^verbatim>\<open>v.k\<close> for a value \<open>v\<close> that is neither \<^verbatim>\<open>undefined\<close> nor \<^verbatim>\<open>null\<close>, and for the
  property names the source reads (none of them is an index or inherited from a
  prototype, \<^verbatim>\<open>length\<close> of strings and arrays apart).
\<close>

fun prop_of :: "jsval \<Rightarrow> string \<Rightarrow> jsval" where
  "prop_of (Obj kvs) k = (case map_of kvs (utf16 k) of Some v \<Rightarrow> v | None \<Rightarrow> Undefined)"
| "prop_of (Str s) k = (if k = ''length'' then Num (Fin (of_nat (length s))) else Undefined)"
| "prop_of (Arr xs) k = (if k = ''length'' then Num (Fin (of_nat (length xs))) else Undefined)"
| "prop_of _ k = Undefined"

text \<open>\<^verbatim>\<open>v.k\<close> in general: reading a property of \<^verbatim>\<open>undefined\<close> or \<^verbatim>\<open>null\<close> throws.\<close>

definition get_prop :: "jsval \<Rightarrow> string \<Rightarrow> exn + jsval" where
  "get_prop v k = (if nullish v then Inl TypeError else Inr (prop_of v k))"

text \<open>
  \<^verbatim>\<open>o.k = v\<close> in sloppy mode: on an object the property is set, on a primitive the
  assignment is ignored. (On an array it would add a named property, which a
  \<^typ>\<open>jsval\<close> array does not hold; the source assigns to \<^verbatim>\<open>notes\<close> only.)
\<close>

fun set_prop :: "jsval \<Rightarrow> string \<Rightarrow> jsval \<Rightarrow> jsval" where
  "set_prop (Obj kvs) k v =
     (if utf16 k \<in> fst ` set kvs
      then Obj (map (\<lambda>(k', v'). if k' = utf16 k then (k', v) else (k', v')) kvs)
      else Obj (kvs @ [(utf16 k, v)]))"
| "set_prop x k v = x"

section \<open>The environment of the server\<close>

text \<open>
  What the source takes from outside the repository is a parameter: the built-in
  conversions between strings, numbers and objects, the HMAC of Node's \<^verbatim>\<open>crypto\<close>
  module, the gateway client, the clock, the secret of the process environment and
  whether \<^verbatim>\<open>fs.writeFileSync\<close> succeeds.
\<close>

text \<open>
  The value a rejected gateway call throws: \<^verbatim>\<open>error.statusCode\<close> and
  \<^verbatim>\<open>error.error.description\<close>, each \<open>None\<close> when the property (or \<^verbatim>\<open>error.error\<close>)
  is missing.
\<close>

record gateway_error =
  statusCode :: "nat option"
  description :: "js_string option"

text \<open>The argument of \<^verbatim>\<open>razorpay.orders.create\<close>.\<close>

record order_options =
  amount :: jsnum
  currency :: jsval
  receipt :: js_string
  notes_obj :: jsval

record env =
  StringToNumber :: "js_string \<Rightarrow> jsnum"
  NumberToString :: "jsnum \<Rightarrow> js_string"
  ObjectToPrimitive :: "jsval \<Rightarrow> exn + js_string"
  hmac_sha256_hex :: "js_string \<Rightarrow> js_string \<Rightarrow> js_string"
  RAZORPAY_KEY_SECRET :: js_string
  orders_create :: "order_options \<Rightarrow> gateway_error + jsval"
  orders_fetch :: "jsval \<Rightarrow> gateway_error + jsval"
  getTime :: nat
  writeFileSync_ok :: bool

text \<open>
  \<^verbatim>\<open>Number(s)\<close> for a string: the empty string is \<open>0\<close>, any other string is read by the
  runtime.
\<close>

definition string_to_number :: "env \<Rightarrow> js_string \<Rightarrow> jsnum" where
  "string_to_number env s = (if s = [] then Fin 0 else StringToNumber env s)"

text \<open>
  \<^verbatim>\<open>Number(v)\<close>. An array or an object is first converted to a string by the runtime,
  which may throw.
\<close>

fun to_number :: "env \<Rightarrow> jsval \<Rightarrow> exn + jsnum" where
  "to_number env Undefined = Inr NaN"
| "to_number env Null = Inr (Fin 0)"
| "to_number env (Bool b) = Inr (Fin (if b then 1 else 0))"
| "to_number env (Num n) = Inr n"
| "to_number env (Str s) = Inr (string_to_number env s)"
| "to_number env v =
     (case ObjectToPrimitive env v of
        Inl e \<Rightarrow> Inl e
      | Inr s \<Rightarrow> Inr (string_to_number env s))"

text \<open>\<^verbatim>\<open>String(v)\<close>, as a template literal and \<^verbatim>\<open>join\<close> apply it.\<close>

fun to_string :: "env \<Rightarrow> jsval \<Rightarrow> exn + js_string" where
  "to_string env Undefined = Inr (utf16 ''undefined'')"
| "to_string env Null = Inr (utf16 ''null'')"
| "to_string env (Bool b) = Inr (if b then utf16 ''true'' else utf16 ''false'')"
| "to_string env (Num n) = Inr (NumberToString env n)"
| "to_string env (Str s) = Inr s"
| "to_string env v = ObjectToPrimitive env v"

text \<open>\<^verbatim>\<open>xs.map(f)\<close> for an \<open>f\<close> that may throw: the first exception ends the loop.\<close>

fun map_exn :: "('a \<Rightarrow> exn + 'b) \<Rightarrow> 'a list \<Rightarrow> exn + 'b list" where
  "map_exn f [] = Inr []"
| "map_exn f (x # xs) =
     (case f x of
        Inl e \<Rightarrow> Inl e
      | Inr y \<Rightarrow> (case map_exn f xs of Inl e \<Rightarrow> Inl e | Inr ys \<Rightarrow> Inr (y # ys)))"

text \<open>
  A template literal, as the log lines of the source have them: its substitutions are
  converted to strings from left to right, and the first conversion that throws ends
  the evaluation.
\<close>

definition template :: "env \<Rightarrow> jsval list \<Rightarrow> exn + js_string list" where
  "template env substitutions = map_exn (to_string env) substitutions"

section \<open>The user store\<close>

text \<open>
  A user record as \<^verbatim>\<open>/register\<close> creates it. \<^verbatim>\<open>hashrate\<close> is the purchase list; it is
  \<open>None\<close> for a record that has no such property (the source reads it as
  \<^verbatim>\<open>user.hashrate || []\<close> where it expects that).
\<close>

record user =
  user_id :: nat
  phoneNumber :: jsval
  password :: jsval
  invitationCode :: jsval
  balance :: jsnum
  hashrate :: "jsval list option"

text \<open>
  The global \<^verbatim>\<open>users\<close> array and the content of \<^verbatim>\<open>users.json\<close>, held as the list it
  serialises.
\<close>

record store =
  users :: "user list"
  db_file :: "user list"

text \<open>\<^verbatim>\<open>saveUsers\<close>: a failing write is caught and logged, and the file keeps its content.\<close>

definition saveUsers :: "env \<Rightarrow> store \<Rightarrow> store" where
  "saveUsers env s = (if writeFileSync_ok env then s\<lparr>db_file := users s\<rparr> else s)"

text \<open>
  \<^verbatim>\<open>users.find(u => u.phoneNumber === phoneNumber)\<close>, as the index of the record found:
  the handlers change that record in place.
\<close>

fun find_user :: "user list \<Rightarrow> jsval \<Rightarrow> nat option" where
  "find_user [] p = None"
| "find_user (u # us) p =
     (if strict_eq (user.phoneNumber u) p then Some 0 else map_option Suc (find_user us p))"

section \<open>Responses\<close>

text \<open>
  A body is a JSON value, a text or a workbook. The texts and the column headers and keys
  of the workbook are literals of the source.
\<close>

datatype resp_body =
    Json jsval
  | Text string
  | Xlsx "(string \<times> string) list" "jsval list"

text \<open>
  A handler either sends a response (status and body) or lets an exception escape.
\<close>

datatype outcome =
    Response nat resp_body
  | Uncaught exn

definition message :: "string \<Rightarrow> resp_body" where
  "message m = Json (object [(''message'', str m)])"

section \<open>The handlers\<close>

text \<open>
  Of the log lines only the template literals are modelled, since only they convert a
  value of the request or of the gateway to a string and can throw; \<^verbatim>\<open>console.log\<close> with
  an object as argument formats it without calling its conversions.
\<close>

subsection \<open>POST /register\<close>

definition register :: "env \<Rightarrow> store \<Rightarrow> jsval \<Rightarrow> outcome \<times> store" where
  "register env s body =
    (if nullish body then (Uncaught TypeError, s)
     else
       let phoneNumber = prop_of body ''phoneNumber'';
           password = prop_of body ''password'';
           invitationCode = prop_of body ''invitationCode''
       in
         if \<not> truthy phoneNumber \<or> \<not> truthy password \<or> \<not> truthy invitationCode
         then (Response 400 (message ''All fields are required.''), s)
         else
           (case to_number env (prop_of password ''length'') of
              Inl e \<Rightarrow> (Uncaught e, s)
            | Inr len \<Rightarrow>
                if js_lt len (Fin 8)
                then (Response 400 (message ''Password must be at least 8 characters long.''), s)
                else if find_user (users s) phoneNumber \<noteq> None
                then (Response 409 (message ''User with this phone number already exists.''), s)
                else
                  let newUser =
                        \<lparr>user_id = length (users s) + 1,
                         phoneNumber = phoneNumber,
                         password = password,
                         invitationCode = invitationCode,
                         balance = Fin 0,
                         hashrate = Some []\<rparr>;
                      s1 = s\<lparr>users := users s @ [newUser]\<rparr>
                  in (Response 201 (message ''User registered successfully! Please log in.''),
                      saveUsers env s1)))"

subsection \<open>POST /login\<close>

text \<open>The handler reads the store and leaves it as it is.\<close>

definition login :: "store \<Rightarrow> jsval \<Rightarrow> outcome" where
  "login s body =
    (if nullish body then Uncaught TypeError
     else
       let phoneNumber = prop_of body ''phoneNumber'';
           password = prop_of body ''password''
       in
         if \<not> truthy phoneNumber \<or> \<not> truthy password
         then Response 400 (message ''Phone number and password are required.'')
         else
           (case find_user (users s) phoneNumber of
              None \<Rightarrow> Response 401 (message ''Invalid phone number or password.'')
            | Some i \<Rightarrow>
                let user = users s ! i in
                  if \<not> strict_eq (user.password user) password
                  then Response 401 (message ''Invalid phone number or password.'')
                  else Response 200 (Json (object
                         [(''message'', str ''Login successful!''),
                          (''user'', object [(''phoneNumber'', user.phoneNumber user),
                                          (''balance'', Num (user.balance user))])]))))"

subsection \<open>PUT /api/update-profile\<close>

definition update_profile :: "env \<Rightarrow> store \<Rightarrow> jsval \<Rightarrow> outcome \<times> store" where
  "update_profile env s body =
    (if nullish body then (Uncaught TypeError, s)
     else
       let phoneNumber = prop_of body ''phoneNumber'';
           currentPassword = prop_of body ''currentPassword'';
           newPassword = prop_of body ''newPassword''
       in
         if \<not> truthy phoneNumber \<or> \<not> truthy currentPassword \<or> \<not> truthy newPassword
         then (Response 400 (message ''All fields are required to update password.''), s)
         else
           (case to_number env (prop_of newPassword ''length'') of
              Inl e \<Rightarrow> (Uncaught e, s)
            | Inr len \<Rightarrow>
                if js_lt len (Fin 8)
                then (Response 400 (message ''New password must be at least 8 characters long.''), s)
                else
                  (case find_user (users s) phoneNumber of
                     None \<Rightarrow> (Response 404 (message ''User not found.''), s)
                   | Some i \<Rightarrow>
                       let user = users s ! i in
                         if \<not> strict_eq (user.password user) currentPassword
                         then (Response 401 (message ''Incorrect current password.''), s)
                         else
                           let s1 = s\<lparr>users := (users s)[i := user\<lparr>password := newPassword\<rparr>]\<rparr>
                           in (Response 200 (message ''Password updated successfully!''),
                               saveUsers env s1))))"

subsection \<open>POST /api/buy-product\<close>

text \<open>
  \<^verbatim>\<open>Number(productData.price)\<close> is evaluated before any check, so a request without
  \<^verbatim>\<open>productData\<close> throws. \<^verbatim>\<open>user.hashrate.push\<close> throws for a record without a purchase
  list, after the balance has been changed in memory and before \<^verbatim>\<open>saveUsers\<close>. The log
  line after \<^verbatim>\<open>saveUsers\<close> is a template literal of the phone number, the price and the
  new balance.
\<close>

definition buy_product :: "env \<Rightarrow> store \<Rightarrow> jsval \<Rightarrow> outcome \<times> store" where
  "buy_product env s body =
    (if nullish body then (Uncaught TypeError, s)
     else
       let phoneNumber = prop_of body ''phoneNumber'';
           productData = prop_of body ''productData''
       in
         (case get_prop productData ''price'' of
            Inl e \<Rightarrow> (Uncaught e, s)
          | Inr price \<Rightarrow>
         (case to_number env price of
            Inl e \<Rightarrow> (Uncaught e, s)
          | Inr numericPrice \<Rightarrow>
              if \<not> truthy phoneNumber \<or> \<not> truthy productData \<or> \<not> truthy price
                 \<or> isNaN numericPrice \<or> js_le numericPrice (Fin 0)
              then (Response 400 (message ''Valid phone number and product data are required.''), s)
              else
                (case find_user (users s) phoneNumber of
                   None \<Rightarrow> (Response 404 (message ''User not found.''), s)
                 | Some i \<Rightarrow>
                     let user = users s ! i in
                       if js_lt (user.balance user) numericPrice
                       then (Response 402 (message ''Insufficient balance.''), s)
                       else
                         let user1 = user\<lparr>balance := js_sub (user.balance user) numericPrice\<rparr>;
                             s1 = s\<lparr>users := (users s)[i := user1]\<rparr>
                         in
                           (case user.hashrate user1 of
                              None \<Rightarrow> (Uncaught TypeError, s1)
                            | Some h \<Rightarrow>
                                let user2 = user1\<lparr>hashrate := Some (h @ [productData])\<rparr>;
                                    s2 = saveUsers env (s\<lparr>users := (users s)[i := user2]\<rparr>)
                                in
                                  (case template env
                                          [phoneNumber, Num numericPrice, Num (user.balance user2)] of
                                     Inl e \<Rightarrow> (Uncaught e, s2)
                                   | Inr line \<Rightarrow>
                                       (Response 200 (Json (object
                                          [(''success'', Bool True),
                                           (''newBalance'', Num (user.balance user2))])),
                                        s2)))))))"

subsection \<open>POST /create-order\<close>

text \<open>
  The handler does not touch the store. Its second result is the list of calls it made
  to \<^verbatim>\<open>razorpay.orders.create\<close>, each with its argument.
\<close>

definition create_order :: "env \<Rightarrow> jsval \<Rightarrow> outcome \<times> order_options list" where
  "create_order env body =
    (if nullish body then (Uncaught TypeError, [])
     else
       let amount = prop_of body ''amount'';
           currency = prop_of body ''currency'';
           qrId = prop_of body ''qrId'';
           phoneNumber = prop_of body ''phoneNumber'';
           notes = prop_of body ''notes''
       in
         if \<not> truthy currency \<or> \<not> truthy phoneNumber \<or> nullish amount
         then (Response 400 (Json (object
                 [(''error'', str ''Bad Request''),
                  (''message'', str ''Amount, currency, and phone number are all required.'')])), [])
         else
           (case to_number env amount of
              Inl e \<Rightarrow> (Uncaught e, [])
            | Inr numericAmount \<Rightarrow>
                if isNaN numericAmount \<or> js_le numericAmount (Fin 0)
                then (Response 400 (Json (object
                        [(''error'', str ''Invalid Amount''),
                         (''message'', str ''A valid, positive amount is required.'')])), [])
                else
                  let orderNotes0 = (if truthy notes then notes else object []);
                      orderNotes1 = set_prop orderNotes0 ''phoneNumber'' phoneNumber;
                      orderNotes = (if truthy qrId then set_prop orderNotes1 ''qrId'' qrId
                                    else orderNotes1);
                      options =
                        \<lparr>amount = Math_round (js_mul numericAmount (Fin 100)),
                         currency = currency,
                         receipt = utf16 ''receipt_order_'' @ NumberToString env (Fin (of_nat (getTime env))),
                         notes_obj = orderNotes\<rparr>
                  in
                    (case orders_create env options of
                       Inr order \<Rightarrow> (Response 200 (Json order), [options])
                     | Inl error \<Rightarrow>
                         (case description error of
                            None \<Rightarrow>
                              (Response 500 (Json (object
                                 [(''error'', str ''Server Error''),
                                  (''message'', str ''An unexpected error occurred.'')])), [options])
                          | Some d \<Rightarrow>
                              if d = []
                              then (Response 500 (Json (object
                                      [(''error'', str ''Server Error''),
                                       (''message'', str ''An unexpected error occurred.'')])), [options])
                              else
                                (Response
                                   (case statusCode error of
                                      None \<Rightarrow> 400
                                    | Some c \<Rightarrow> if c = 0 then 400 else c)
                                   (Json (object
                                      [(''error'', str ''Payment Gateway Error''),
                                       (''message'', Str d)])), [options])))))"

subsection \<open>POST /verify-payment\<close>

definition failure :: "string \<Rightarrow> resp_body" where
  "failure m = Json (object [(''status'', str ''failure''), (''message'', str m)])"

text \<open>
  \<^verbatim>\<open>expectedSignature\<close>: the hex HMAC-SHA256, keyed by the secret, of the two identifiers
  joined by \<^verbatim>\<open>|\<close>.
\<close>

definition expectedSignature :: "env \<Rightarrow> js_string \<Rightarrow> js_string \<Rightarrow> js_string" where
  "expectedSignature env order_id payment_id =
     hmac_sha256_hex env (RAZORPAY_KEY_SECRET env) (order_id @ utf16 ''|'' @ payment_id)"

text \<open>
  The body of the \<^verbatim>\<open>try\<close> block once the order has been fetched. An exception in it
  (reading a property of \<^verbatim>\<open>undefined\<close> or \<^verbatim>\<open>null\<close>, a conversion that throws) is caught
  and answered with status 500. The log lines are template literals: the one of the
  product branch is evaluated after \<^verbatim>\<open>push\<close> and \<^verbatim>\<open>saveUsers\<close>, so when it throws the
  purchase is stored and the answer is 500.
\<close>

definition apply_order :: "env \<Rightarrow> store \<Rightarrow> jsval \<Rightarrow> jsval \<Rightarrow> jsval \<Rightarrow> outcome \<times> store" where
  "apply_order env s razorpay_order_id productData order =
    (if nullish order then (Response 500 (failure ''Could not update user balance.''), s)
     else
       let notes = prop_of order ''notes'' in
     if nullish notes then (Response 500 (failure ''Could not update user balance.''), s)
     else
       let phoneNumber = prop_of notes ''phoneNumber'' in
    (case find_user (users s) phoneNumber of
       None \<Rightarrow>
         (case template env [phoneNumber, razorpay_order_id] of
            Inl e \<Rightarrow> (Response 500 (failure ''Could not update user balance.''), s)
          | Inr line \<Rightarrow> (Response 404 (failure ''User associated with order not found.''), s))
     | Some i \<Rightarrow>
         let user = users s ! i in
           if truthy productData \<and> strict_eq (prop_of notes ''purchaseType'') (str ''product'')
           then
             (case user.hashrate user of
                None \<Rightarrow> (Response 500 (failure ''Could not update user balance.''), s)
              | Some h \<Rightarrow>
                  let user1 = user\<lparr>hashrate := Some (h @ [productData])\<rparr>;
                      s1 = saveUsers env (s\<lparr>users := (users s)[i := user1]\<rparr>)
                  in
                    (case template env [phoneNumber, prop_of productData ''name''] of
                       Inl e \<Rightarrow> (Response 500 (failure ''Could not update user balance.''), s1)
                     | Inr line \<Rightarrow>
                         (Response 200 (Json (object
                            [(''status'', str ''success''),
                             (''message'', str ''Product purchased successfully.'')])),
                          s1)))
           else
             (case to_number env (prop_of order ''amount'') of
                Inl e \<Rightarrow> (Response 500 (failure ''Could not update user balance.''), s)
              | Inr n \<Rightarrow>
                  let amountPaid = js_div n (Fin 100);
                      user1 = user\<lparr>balance := js_add (user.balance user) amountPaid\<rparr>;
                      s1 = saveUsers env (s\<lparr>users := (users s)[i := user1]\<rparr>)
                  in
                    (case template env [phoneNumber, Num (user.balance user1)] of
                       Inl e \<Rightarrow> (Response 500 (failure ''Could not update user balance.''), s1)
                     | Inr line \<Rightarrow>
                         (Response 200 (Json (object
                            [(''status'', str ''success''),
                             (''orderId'', razorpay_order_id),
                             (''newBalance'', Num (user.balance user1))])),
                          s1)))))"

definition verify_payment :: "env \<Rightarrow> store \<Rightarrow> jsval \<Rightarrow> outcome \<times> store" where
  "verify_payment env s body =
    (if nullish body then (Uncaught TypeError, s)
     else
       let razorpay_order_id = prop_of body ''razorpay_order_id'';
           razorpay_payment_id = prop_of body ''razorpay_payment_id'';
           razorpay_signature = prop_of body ''razorpay_signature'';
           productData = prop_of body ''productData''
       in
         if \<not> truthy razorpay_order_id \<or> \<not> truthy razorpay_payment_id
            \<or> \<not> truthy razorpay_signature
         then (Response 400 (failure ''Missing payment details.''), s)
         else
           (case to_string env razorpay_order_id of
              Inl e \<Rightarrow> (Uncaught e, s)
            | Inr order_id \<Rightarrow>
           (case to_string env razorpay_payment_id of
              Inl e \<Rightarrow> (Uncaught e, s)
            | Inr payment_id \<Rightarrow>
                if strict_eq (Str (expectedSignature env order_id payment_id)) razorpay_signature
                then
                  (case orders_fetch env razorpay_order_id of
                     Inl error \<Rightarrow> (Response 500 (failure ''Could not update user balance.''), s)
                   | Inr order \<Rightarrow> apply_order env s razorpay_order_id productData order)
                else (Response 400 (failure ''Invalid signature.''), s))))"

subsection \<open>GET /api/export-users\<close>

text \<open>
  \<^verbatim>\<open>xs.join(sep)\<close>: an element that is \<^verbatim>\<open>undefined\<close> or \<^verbatim>\<open>null\<close> gives the empty string,
  any other its string conversion.
\<close>

definition join_element :: "env \<Rightarrow> jsval \<Rightarrow> exn + js_string" where
  "join_element env v = (if nullish v then Inr [] else to_string env v)"

fun intercalate :: "js_string \<Rightarrow> js_string list \<Rightarrow> js_string" where
  "intercalate sep [] = []"
| "intercalate sep [x] = x"
| "intercalate sep (x # y # ys) = x @ sep @ intercalate sep (y # ys)"

definition join :: "env \<Rightarrow> js_string \<Rightarrow> jsval list \<Rightarrow> exn + js_string" where
  "join env sep xs =
     (case map_exn (join_element env) xs of
        Inl e \<Rightarrow> Inl e
      | Inr strs \<Rightarrow> Inr (intercalate sep strs))"

text \<open>The cell of the column \<^verbatim>\<open>hashrate\<close>.\<close>

definition products_cell :: "env \<Rightarrow> user \<Rightarrow> exn + jsval" where
  "products_cell env u =
     (case user.hashrate u of
        None \<Rightarrow> Inr (str ''None'')
      | Some products \<Rightarrow>
          if products = [] then Inr (str ''None'')
          else
            (case map_exn (\<lambda>product. get_prop product ''name'') products of
               Inl e \<Rightarrow> Inl e
             | Inr names \<Rightarrow>
                 (case join env (utf16 '', '') names of
                    Inl e \<Rightarrow> Inl e
                  | Inr cell \<Rightarrow> Inr (Str cell))))"

text \<open>The object given to \<^verbatim>\<open>worksheet.addRow\<close> for one user.\<close>

definition export_row :: "env \<Rightarrow> user \<Rightarrow> exn + jsval" where
  "export_row env u =
     (case products_cell env u of
        Inl e \<Rightarrow> Inl e
      | Inr cell \<Rightarrow>
          Inr (object [(''id'', Num (Fin (of_nat (user_id u)))),
                    (''phoneNumber'', user.phoneNumber u),
                    (''balance'', Num (user.balance u)),
                    (''invitationCode'', user.invitationCode u),
                    (''hashrate'', cell)]))"

text \<open>\<^verbatim>\<open>worksheet.columns\<close>: header and key of each column.\<close>

definition columns :: "(string \<times> string) list" where
  "columns =
     [(''ID'', ''id''),
      (''Phone Number'', ''phoneNumber''),
      (''Balance'', ''balance''),
      (''Invitation Code'', ''invitationCode''),
      (''Purchased Products'', ''hashrate'')]"

definition export_users :: "env \<Rightarrow> store \<Rightarrow> outcome" where
  "export_users env s =
     (if users s = [] then Response 404 (Text ''No user data to export.'')
      else
        (case map_exn (export_row env) (users s) of
           Inl e \<Rightarrow> Response 500 (Text ''An error occurred while generating the Excel file.'')
         | Inr rows \<Rightarrow> Response 200 (Xlsx columns rows)))"

section \<open>Reachable stores\<close>

text \<open>
  The store of a server started without \<^verbatim>\<open>users.json\<close> (\<^verbatim>\<open>loadUsers\<close> then creates the
  file with an empty array), after any sequence of requests to the four handlers that
  write to \<^verbatim>\<open>users\<close>, with any request body and in any environment.
\<close>

inductive reachable :: "store \<Rightarrow> bool" where
  start: "reachable \<lparr>users = [], db_file = []\<rparr>"
| after_register: "reachable s \<Longrightarrow> register env s body = (out, s') \<Longrightarrow> reachable s'"
| after_update_profile: "reachable s \<Longrightarrow> update_profile env s body = (out, s') \<Longrightarrow> reachable s'"
| after_buy_product: "reachable s \<Longrightarrow> buy_product env s body = (out, s') \<Longrightarrow> reachable s'"
| after_verify_payment: "reachable s \<Longrightarrow> verify_payment env s body = (out, s') \<Longrightarrow> reachable s'"

section \<open>Predicates used in the statements\<close>

text \<open>
  A request to \<^verbatim>\<open>/verify-payment\<close> that carries the three payment fields:
  \<open>order_id\<close> and \<open>payment_id\<close> are the strings the template literal makes of the two
  identifiers, \<open>signature\<close> is the submitted \<^verbatim>\<open>razorpay_signature\<close>.
\<close>

definition payment_fields ::
  "env \<Rightarrow> jsval \<Rightarrow> js_string \<Rightarrow> js_string \<Rightarrow> jsval \<Rightarrow> bool" where
  "payment_fields env body order_id payment_id signature \<longleftrightarrow>
     truthy (prop_of body ''razorpay_order_id'') \<and>
     truthy (prop_of body ''razorpay_payment_id'') \<and>
     truthy signature \<and>
     to_string env (prop_of body ''razorpay_order_id'') = Inr order_id \<and>
     to_string env (prop_of body ''razorpay_payment_id'') = Inr payment_id \<and>
     prop_of body ''razorpay_signature'' = signature"

text \<open>
  The number of characters (code points) of a string: a high surrogate followed by a low
  surrogate is one character.
\<close>

definition high_surrogate :: "code_unit \<Rightarrow> bool" where
  "high_surrogate u \<longleftrightarrow> 0xD800 \<le> u \<and> u \<le> 0xDBFF"

definition low_surrogate :: "code_unit \<Rightarrow> bool" where
  "low_surrogate u \<longleftrightarrow> 0xDC00 \<le> u \<and> u \<le> 0xDFFF"

fun code_points :: "js_string \<Rightarrow> nat" where
  "code_points [] = 0"
| "code_points [u] = 1"
| "code_points (u # v # us) =
     (if high_surrogate u \<and> low_surrogate v then Suc (code_points us)
      else Suc (code_points (v # us)))"

text \<open>The rationals that are doubles.\<close>

definition is_double :: "rat \<Rightarrow> bool" where
  "is_double x \<longleftrightarrow> round_double x = Fin x"

text \<open>The own property names of an object, in order.\<close>

fun keys :: "jsval \<Rightarrow> js_string list" where
  "keys (Obj kvs) = map fst kvs"
| "keys _ = []"

text \<open>A purchase entry that is not \<^verbatim>\<open>null\<close> and whose \<^verbatim>\<open>name\<close> is a string.\<close>

definition named_product :: "jsval \<Rightarrow> bool" where
  "named_product product \<longleftrightarrow>
     \<not> nullish product \<and>
     (case prop_of product ''name'' of Str name \<Rightarrow> True | _ \<Rightarrow> False)"

text \<open>The values \<^verbatim>\<open>===\<close> compares by content: everything but arrays and objects.\<close>

fun primitive :: "jsval \<Rightarrow> bool" where
  "primitive (Arr xs) = False"
| "primitive (Obj kvs) = False"
| "primitive _ = True"

text \<open>No value of the list is \<^verbatim>\<open>===\<close> to a later one.\<close>

fun no_duplicate :: "jsval list \<Rightarrow> bool" where
  "no_duplicate [] = True"
| "no_duplicate (p # ps) = (list_all (\<lambda>q. \<not> strict_eq q p) ps \<and> no_duplicate ps)"

text \<open>
  The invariant of the \<^verbatim>\<open>users\<close> array: no two records have \<^verbatim>\<open>===\<close> phone numbers, and
  every record has a phone number and a password that pass the check \<^verbatim>\<open>!x\<close> of
  \<^verbatim>\<open>/register\<close>.
\<close>

definition wf_users :: "user list \<Rightarrow> bool" where
  "wf_users us \<longleftrightarrow>
     no_duplicate (map user.phoneNumber us) \<and>
     list_all (\<lambda>u. truthy (user.phoneNumber u) \<and> truthy (user.password u)) us"

section \<open>Example data\<close>

text \<open>
  An environment in which every function is computable: the HMAC is replaced by the
  concatenation of key and text, the gateway knows one order of 500 minor units for the
  phone number \<^verbatim>\<open>9000000001\<close>.
\<close>

definition example_order :: jsval where
  "example_order =
     object [(''amount'', Num (Fin 500)),
          (''notes'', object [(''phoneNumber'', str ''9000000001'')])]"

definition example_env :: env where
  "example_env =
     \<lparr>StringToNumber = (\<lambda>s. NaN),
      NumberToString = (\<lambda>n. utf16 ''0''),
      ObjectToPrimitive = (\<lambda>v. Inr (utf16 ''[object Object]'')),
      hmac_sha256_hex = (\<lambda>key text. key @ text),
      RAZORPAY_KEY_SECRET = utf16 ''secret'',
      orders_create = (\<lambda>options. Inr (object [(''id'', str ''order_1'')])),
      orders_fetch = (\<lambda>order_id. Inr example_order),
      getTime = 0,
      writeFileSync_ok = True\<rparr>"

definition empty_store :: store where
  "empty_store = \<lparr>users = [], db_file = []\<rparr>"

definition example_user :: user where
  "example_user =
     \<lparr>user_id = 1, phoneNumber = str ''9000000001'', password = str ''12345678'',
      invitationCode = str ''INV'', balance = Fin 0, hashrate = Some []\<rparr>"

definition example_store :: store where
  "example_store = \<lparr>users = [example_user], db_file = [example_user]\<rparr>"

definition credited_user :: user where
  "credited_user = example_user\<lparr>balance := Fin 5\<rparr>"

definition credited_store :: store where
  "credited_store = \<lparr>users = [credited_user], db_file = [credited_user]\<rparr>"

text \<open>Bodies of requests to \<^verbatim>\<open>/register\<close>, \<^verbatim>\<open>/login\<close> and \<^verbatim>\<open>/api/update-profile\<close>.\<close>

definition register_body :: jsval where
  "register_body =
     object [(''phoneNumber'', str ''9000000001''), (''password'', str ''12345678''),
          (''invitationCode'', str ''INV'')]"

definition short_register_body :: jsval where
  "short_register_body =
     object [(''phoneNumber'', str ''9000000001''), (''password'', str ''1234567''),
          (''invitationCode'', str ''INV'')]"

definition short_update_body :: jsval where
  "short_update_body =
     object [(''phoneNumber'', str ''9000000001''), (''currentPassword'', str ''12345678''),
          (''newPassword'', str ''1234567'')]"

definition array_phone_body :: jsval where
  "array_phone_body =
     object [(''phoneNumber'', Arr [str ''9000000001'']), (''password'', str ''12345678''),
          (''invitationCode'', str ''INV'')]"

text \<open>Bodies of requests to \<^verbatim>\<open>/verify-payment\<close>: the second has a changed signature.\<close>

definition paid_body :: jsval where
  "paid_body =
     object [(''razorpay_order_id'', str ''order_1''),
          (''razorpay_payment_id'', str ''pay_1''),
          (''razorpay_signature'', str ''secretorder_1|pay_1'')]"

definition forged_body :: jsval where
  "forged_body =
     object [(''razorpay_order_id'', str ''order_1''),
          (''razorpay_payment_id'', str ''pay_1''),
          (''razorpay_signature'', str ''secretorder_1|pay_2'')]"

definition top_up_response :: resp_body where
  "top_up_response =
     Json (object [(''status'', str ''success''), (''orderId'', str ''order_1''),
                (''newBalance'', Num (Fin 5))])"

text \<open>An order whose notes mark a product purchase, and the gateway that reports it.\<close>

definition product_notes :: jsval where
  "product_notes =
     object [(''phoneNumber'', str ''9000000001''), (''purchaseType'', str ''product'')]"

definition product_order :: jsval where
  "product_order = object [(''amount'', Num (Fin 500)), (''notes'', product_notes)]"

definition product_env :: env where
  "product_env = example_env\<lparr>orders_fetch := (\<lambda>order_id. Inr product_order)\<rparr>"

definition miner :: jsval where
  "miner = object [(''name'', str ''Miner''), (''price'', Num (Fin 2))]"

definition product_body :: jsval where
  "product_body =
     object [(''razorpay_order_id'', str ''order_1''),
          (''razorpay_payment_id'', str ''pay_1''),
          (''razorpay_signature'', str ''secretorder_1|pay_1''),
          (''productData'', miner)]"

text \<open>A purchase paid from the balance, and the store after it.\<close>

definition buy_body :: jsval where
  "buy_body = object [(''phoneNumber'', str ''9000000001''), (''productData'', miner)]"

definition owner_user :: user where
  "owner_user = example_user\<lparr>balance := Fin 3, hashrate := Some [miner]\<rparr>"

definition owner_store :: store where
  "owner_store = \<lparr>users = [owner_user], db_file = [owner_user]\<rparr>"

text \<open>Bodies of requests to \<^verbatim>\<open>/create-order\<close>.\<close>

definition order_body :: jsval where
  "order_body =
     object [(''amount'', Num (Fin (5 / 2))), (''currency'', str ''INR''),
          (''phoneNumber'', str ''9000000001'')]"

definition negative_order_body :: jsval where
  "negative_order_body =
     object [(''amount'', Num (Fin (- 1))), (''currency'', str ''INR''),
          (''phoneNumber'', str ''9000000001'')]"

text \<open>An amount that is a boolean, and the amount \<^verbatim>\<open>0.155\<close> as the double it is parsed to.\<close>

definition boolean_order_body :: jsval where
  "boolean_order_body =
     object [(''amount'', Bool True), (''currency'', str ''INR''),
          (''phoneNumber'', str ''9000000001'')]"

definition fraction_order_body :: jsval where
  "fraction_order_body =
     object [(''amount'', Num (Fin (5584463537939415 / 2 ^ 55))), (''currency'', str ''INR''),
          (''phoneNumber'', str ''9000000001'')]"

text \<open>Requests whose password is the number \<^verbatim>\<open>1234\<close>.\<close>

definition numeric_register_body :: jsval where
  "numeric_register_body =
     object [(''phoneNumber'', str ''9000000001''), (''password'', Num (Fin 1234)),
          (''invitationCode'', str ''INV'')]"

text \<open>A password of four characters, each the character U+1F600, which takes two code units.\<close>

definition astral_password :: js_string where
  "astral_password = [0xD83D, 0xDE00, 0xD83D, 0xDE00, 0xD83D, 0xDE00, 0xD83D, 0xDE00]"

definition astral_register_body :: jsval where
  "astral_register_body =
     object [(''phoneNumber'', str ''9000000001''), (''password'', Str astral_password),
          (''invitationCode'', str ''INV'')]"

definition numeric_update_body :: jsval where
  "numeric_update_body =
     object [(''phoneNumber'', str ''9000000001''), (''currentPassword'', str ''12345678''),
          (''newPassword'', Num (Fin 1234))]"

text \<open>
  A store to export: one user with two purchases, one record without a purchase list.
\<close>

definition rig :: jsval where
  "rig = object [(''name'', str ''Rig''), (''price'', Num (Fin 1))]"

definition legacy_user :: user where
  "legacy_user =
     \<lparr>user_id = 2, phoneNumber = str ''9000000002'', password = str ''abcdefgh'',
      invitationCode = str ''INV'', balance = Fin 0, hashrate = None\<rparr>"

definition export_store :: store where
  "export_store =
     \<lparr>users = [example_user\<lparr>hashrate := Some [miner, rig]\<rparr>, legacy_user],
      db_file = []\<rparr>"

definition export_sheet :: "jsval list" where
  "export_sheet =
     [object [(''id'', Num (Fin 1)), (''phoneNumber'', str ''9000000001''),
           (''balance'', Num (Fin 0)), (''invitationCode'', str ''INV''),
           (''hashrate'', str ''Miner, Rig'')],
      object [(''id'', Num (Fin 2)), (''phoneNumber'', str ''9000000002''),
           (''balance'', Num (Fin 0)), (''invitationCode'', str ''INV''),
           (''hashrate'', str ''None'')]]"

section \<open>Basic facts\<close>

lemma users_saveUsers [simp]: "users (saveUsers env s) = users s"
  by (simp add: saveUsers_def)

lemma db_file_saveUsers [simp]:
  "db_file (saveUsers env s) = (if writeFileSync_ok env then users s else db_file s)"
  by (simp add: saveUsers_def)

subsection \<open>Strings\<close>

lemma of_char_less_256: "(of_char c :: nat) < 256"
  by (cases c) (simp add: of_char_def horner_sum_eq_sum)

lemma code_unit_inj: "(of_nat (of_char c) :: code_unit) = of_nat (of_char d) \<longleftrightarrow> c = d"
proof -
  have "(of_char c :: nat) < 2 ^ 16"
    by (rule less_trans [OF of_char_less_256]) simp
  moreover have "(of_char d :: nat) < 2 ^ 16"
    by (rule less_trans [OF of_char_less_256]) simp
  ultimately show ?thesis
    by (simp add: word_of_nat_eq_iff take_bit_nat_eq_self)
qed

text \<open>Different literals denote different strings.\<close>

lemma utf16_eq_iff [simp]: "utf16 a = utf16 b \<longleftrightarrow> a = b"
proof (induction a arbitrary: b)
  case Nil
  then show ?case by (auto simp: utf16_def)
next
  case (Cons x a)
  then show ?case by (cases b) (auto simp: utf16_def code_unit_inj)
qed

lemma utf16_Nil [simp]: "utf16 [] = []"
  by (simp add: utf16_def)

lemma utf16_eq_Nil [simp]: "utf16 s = [] \<longleftrightarrow> s = []"
  by (simp add: utf16_def)

lemma length_utf16 [simp]: "length (utf16 s) = length s"
  by (simp add: utf16_def)

lemma utf16_append [simp]: "utf16 a @ utf16 b = utf16 (a @ b)"
  by (simp add: utf16_def)

lemma utf16_append_more [simp]: "utf16 a @ utf16 b @ c = utf16 (a @ b) @ c"
  by (simp add: utf16_def)

subsection \<open>Values\<close>

lemma strict_eq_Str_left [simp]: "strict_eq (Str a) v \<longleftrightarrow> v = Str a"
  by (cases v) auto

lemma strict_eq_Str_right [simp]: "strict_eq v (Str a) \<longleftrightarrow> v = Str a"
  by (cases v) auto

lemma strict_eq_sym: "strict_eq a b = strict_eq b a"
  by (cases a; cases b) auto

lemma strict_eq_refl: "primitive a \<Longrightarrow> truthy a \<Longrightarrow> strict_eq a a"
  by (cases a) auto

lemma prop_of_not_nullish: "prop_of body k = Str x \<Longrightarrow> \<not> nullish body"
  by (cases body) auto

lemma truthy_not_nullish: "truthy v \<Longrightarrow> \<not> nullish v"
  by (cases v) auto

subsection \<open>Numbers\<close>

lemma positive_number: "js_lt (Fin 0) n \<Longrightarrow> \<not> isNaN n \<and> \<not> js_le n (Fin 0)"
  by (cases n) (auto simp: js_le_def)

lemma above_non_negative: "0 \<le> b \<Longrightarrow> js_lt (Fin b) n \<Longrightarrow> js_lt (Fin 0) n"
  by (cases n) auto

text \<open>A value that converts to a positive number is neither missing nor falsy.\<close>

lemma positive_number_truthy:
  assumes "to_number env v = Inr n" and "js_lt (Fin 0) n"
  shows "truthy v"
  using assms by (cases v; cases n) (auto simp: string_to_number_def split: if_splits)

lemma positive_price_object:
  assumes "to_number env (prop_of v ''price'') = Inr n" and "js_lt (Fin 0) n"
  shows "truthy v"
  using assms by (cases v) auto

lemma Math_round_nearest:
  "\<exists>k::int. Math_round (Fin x) = Fin (of_int k) \<and> \<bar>of_int k - x\<bar> \<le> 1 / 2"
proof -
  let ?k = "\<lfloor>x + 1 / 2\<rfloor>"
  have "of_int ?k \<le> x + 1 / 2" by linarith
  moreover have "x + 1 / 2 < of_int ?k + 1" by linarith
  ultimately have "\<bar>of_int ?k - x\<bar> \<le> 1 / 2" by linarith
  then show ?thesis by auto
qed

subsection \<open>Rounding\<close>

lemma round_half_even_nonneg: "0 \<le> x \<Longrightarrow> 0 \<le> round_half_even x"
  by (auto simp: round_half_even_def Let_def)

text \<open>Rounding keeps the sign: the double of a number that is not negative is not negative.\<close>

lemma round_double_nonneg: "0 \<le> x \<Longrightarrow> js_le (Fin 0) (round_double x)"
proof (cases "x = 0")
  case True
  then show ?thesis by (simp add: round_double_def js_le_def)
next
  case False
  assume "0 \<le> x"
  let ?ulp = "2 powi (max (floor_log2 \<bar>x\<bar>) (- 1022) - 52) :: rat"
  have "0 < ?ulp" by (simp add: zero_less_power_int)
  then have "0 \<le> \<bar>x\<bar> / ?ulp" by simp
  then have "0 \<le> round_half_even (\<bar>x\<bar> / ?ulp)" by (rule round_half_even_nonneg)
  then have "0 \<le> rat_of_int (round_half_even (\<bar>x\<bar> / ?ulp)) * ?ulp"
    using \<open>0 < ?ulp\<close> by simp
  then show ?thesis
    using False \<open>0 \<le> x\<close> by (simp add: round_double_def Let_def js_le_def)
qed

text \<open>Some small integers, which are doubles.\<close>

lemma round_double_3 [simp]: "round_double 3 = Fin 3"
  by code_simp

lemma round_double_5 [simp]: "round_double 5 = Fin 5"
  by code_simp

lemma round_double_10 [simp]: "round_double 10 = Fin 10"
  by code_simp

lemma round_double_100 [simp]: "round_double 100 = Fin 100"
  by code_simp

lemma round_double_250 [simp]: "round_double 250 = Fin 250"
  by code_simp

text \<open>
  The sum of the doubles nearest to one tenth and to two tenths is rounded: it is the
  double \<^verbatim>\<open>0.30000000000000004\<close>, which is not their exact sum.
\<close>

lemma js_add_rounds:
  "js_add (Fin (3602879701896397 / 2 ^ 55)) (Fin (3602879701896397 / 2 ^ 54)) =
     Fin (1351079888211149 / 2 ^ 52)"
  by code_simp

subsection \<open>Conversions that cannot throw\<close>

lemma to_string_primitive: "primitive v \<Longrightarrow> \<exists>s. to_string env v = Inr s"
  by (cases v) auto

lemma strict_eq_primitive: "strict_eq q p \<Longrightarrow> primitive p"
  by (cases q; cases p) auto

lemma map_exn_length: "map_exn f xs = Inr ys \<Longrightarrow> length ys = length xs"
  by (induction xs arbitrary: ys) (auto split: sum.splits)

lemma map_exn_nth: "map_exn f xs = Inr ys \<Longrightarrow> i < length xs \<Longrightarrow> f (xs ! i) = Inr (ys ! i)"
proof (induction xs arbitrary: ys i)
  case Nil
  then show ?case by simp
next
  case (Cons x xs)
  then show ?case by (cases i) (auto split: sum.splits)
qed

lemma map_exn_total:
  "(\<And>x. x \<in> set xs \<Longrightarrow> \<exists>y. f x = Inr y) \<Longrightarrow> \<exists>ys. map_exn f xs = Inr ys"
proof (induction xs)
  case Nil
  then show ?case by simp
next
  case (Cons x xs)
  then obtain y ys where "f x = Inr y" "map_exn f xs = Inr ys" by (meson list.set_intros)
  then show ?case by simp
qed

lemma template_primitive:
  "list_all primitive substitutions \<Longrightarrow> \<exists>line. template env substitutions = Inr line"
  unfolding template_def
  by (rule map_exn_total) (auto simp: list_all_iff dest: to_string_primitive)

subsection \<open>Searching the store\<close>

lemma find_user_bound: "find_user us p = Some i \<Longrightarrow> i < length us"
  by (induction us arbitrary: i) (auto split: if_splits)

lemma find_user_None:
  "find_user us p = None \<longleftrightarrow> list_all (\<lambda>q. \<not> strict_eq q p) (map user.phoneNumber us)"
  by (induction us) auto

lemma find_user_primitive: "find_user us p = Some i \<Longrightarrow> primitive p"
  by (induction us arbitrary: i) (auto split: if_splits dest: strict_eq_primitive)

lemma find_user_member:
  "u \<in> set us \<Longrightarrow> strict_eq (user.phoneNumber u) p \<Longrightarrow> find_user us p \<noteq> None"
  by (auto simp: find_user_None list_all_iff)

text \<open>\<^verbatim>\<open>find\<close> returns the first record that matches.\<close>

lemma find_user_Some:
  "find_user us p = Some i \<Longrightarrow>
     i < length us \<and> strict_eq (user.phoneNumber (us ! i)) p \<and>
     (\<forall>j < i. \<not> strict_eq (user.phoneNumber (us ! j)) p)"
proof (induction us arbitrary: i)
  case Nil
  then show ?case by simp
next
  case (Cons u us)
  show ?case
  proof (cases "strict_eq (user.phoneNumber u) p")
    case True
    with Cons.prems show ?thesis by simp
  next
    case False
    with Cons.prems obtain k where k: "find_user us p = Some k" "i = Suc k" by auto
    from Cons.IH [OF k(1)] False k(2) show ?thesis
      by (auto simp: nth_Cons split: nat.splits)
  qed
qed

text \<open>Changing a record without changing its phone number does not change the search.\<close>

lemma find_user_update:
  "user.phoneNumber u = user.phoneNumber (us ! i) \<Longrightarrow> i < length us \<Longrightarrow>
     find_user (us[i := u]) p = find_user us p"
proof (induction us arbitrary: i)
  case Nil
  then show ?case by simp
next
  case (Cons a us)
  then show ?case by (cases i) auto
qed

lemma map_phoneNumber_update:
  assumes "user.phoneNumber u = user.phoneNumber (us ! i)" and "i < length us"
  shows "map user.phoneNumber (us[i := u]) = map user.phoneNumber us"
proof -
  have "map user.phoneNumber (us[i := u]) =
          (map user.phoneNumber us)[i := map user.phoneNumber us ! i]"
    using assms by (simp add: map_update)
  then show ?thesis by simp
qed

subsection \<open>The invariant of the store\<close>

lemma no_duplicate_append:
  "no_duplicate (ps @ [p]) \<longleftrightarrow> no_duplicate ps \<and> list_all (\<lambda>q. \<not> strict_eq q p) ps"
  by (induction ps) (auto simp: strict_eq_sym)

lemma no_duplicate_nth:
  "no_duplicate ps \<Longrightarrow> i < j \<Longrightarrow> j < length ps \<Longrightarrow> \<not> strict_eq (ps ! i) (ps ! j)"
proof (induction ps arbitrary: i j)
  case Nil
  then show ?case by simp
next
  case (Cons p ps)
  show ?case
  proof (cases i)
    case 0
    with Cons.prems obtain j' where j': "j = Suc j'" "j' < length ps" by (cases j) auto
    with Cons.prems 0 have "\<not> strict_eq (ps ! j') p" by (simp add: list_all_length)
    with 0 j' show ?thesis by (simp add: strict_eq_sym)
  next
    case (Suc i')
    with Cons.prems obtain j' where j': "j = Suc j'" "i' < j'" "j' < length ps" by (cases j) auto
    with Cons.prems Cons.IH [of i' j'] Suc show ?thesis by simp
  qed
qed

lemma wf_users_Cons: "wf_users (u # us) \<Longrightarrow> wf_users us"
  by (simp add: wf_users_def)

lemma wf_users_password: "wf_users us \<Longrightarrow> i < length us \<Longrightarrow> truthy (user.password (us ! i))"
  by (simp add: wf_users_def list_all_length)

lemma wf_users_append:
  assumes "wf_users us" and "find_user us (user.phoneNumber u) = None"
    and "truthy (user.phoneNumber u)" and "truthy (user.password u)"
  shows "wf_users (us @ [u])"
  using assms by (simp add: wf_users_def no_duplicate_append find_user_None)

lemma wf_users_update:
  assumes "wf_users us" and "user.phoneNumber u = user.phoneNumber (us ! i)"
    and "truthy (user.password u)" and "i < length us"
  shows "wf_users (us[i := u])"
proof -
  have "truthy (user.phoneNumber u)"
    using assms by (simp add: wf_users_def list_all_length)
  then have "list_all (\<lambda>u. truthy (user.phoneNumber u) \<and> truthy (user.password u)) (us[i := u])"
    using assms by (auto simp: wf_users_def list_all_length nth_list_update)
  then show ?thesis
    using assms by (simp add: wf_users_def map_phoneNumber_update)
qed

text \<open>Among records that satisfy the invariant, a phone number that is not an array or an
  object belongs to at most one.\<close>

lemma wf_users_at_most_one:
  assumes "wf_users us" and "primitive N"
  shows "length (filter (\<lambda>u. user.phoneNumber u = N) us) \<le> 1"
  using assms(1)
proof (induction us)
  case Nil
  then show ?case by simp
next
  case (Cons u us)
  then have IH: "length (filter (\<lambda>u. user.phoneNumber u = N) us) \<le> 1"
    using wf_users_Cons by blast
  show ?case
  proof (cases "user.phoneNumber u = N")
    case False
    with IH show ?thesis by simp
  next
    case True
    then have "truthy N" using Cons.prems by (simp add: wf_users_def)
    then have "strict_eq N N" using assms(2) by (simp add: strict_eq_refl)
    moreover have "list_all (\<lambda>q. \<not> strict_eq q N) (map user.phoneNumber us)"
      using Cons.prems True by (simp add: wf_users_def)
    ultimately have "filter (\<lambda>u. user.phoneNumber u = N) us = []"
      by (auto simp: list_all_iff filter_empty_conv)
    with True show ?thesis by simp
  qed
qed

text \<open>Each handler that writes to the store keeps the invariant.\<close>

lemma register_wf_users:
  assumes "register env s body = (out, s')" and "wf_users (users s)"
  shows "wf_users (users s')"
  using assms
  by (auto simp: register_def Let_def intro!: wf_users_append split: if_splits sum.splits)

lemma update_profile_wf_users:
  assumes "update_profile env s body = (out, s')" and "wf_users (users s)"
  shows "wf_users (users s')"
proof (cases "find_user (users s) (prop_of body ''phoneNumber'')")
  case None
  with assms show ?thesis
    by (auto simp: update_profile_def Let_def split: if_splits sum.splits)
next
  case (Some i)
  then have "i < length (users s)" by (rule find_user_bound)
  with assms Some show ?thesis
    by (auto simp: update_profile_def Let_def wf_users_update split: if_splits sum.splits)
qed

lemma buy_product_wf_users:
  assumes "buy_product env s body = (out, s')" and "wf_users (users s)"
  shows "wf_users (users s')"
proof (cases "find_user (users s) (prop_of body ''phoneNumber'')")
  case None
  with assms show ?thesis
    by (auto simp: buy_product_def Let_def split: if_splits sum.splits)
next
  case (Some i)
  then have "i < length (users s)" by (rule find_user_bound)
  with assms Some show ?thesis
    by (auto simp: buy_product_def Let_def wf_users_update wf_users_password
        split: if_splits sum.splits option.splits)
qed

lemma apply_order_wf_users:
  assumes "apply_order env s oid productData order = (out, s')" and "wf_users (users s)"
  shows "wf_users (users s')"
proof (cases "find_user (users s) (prop_of (prop_of order ''notes'') ''phoneNumber'')")
  case None
  with assms show ?thesis
    by (auto simp: apply_order_def Let_def split: if_splits sum.splits)
next
  case (Some i)
  then have "i < length (users s)" by (rule find_user_bound)
  with assms Some show ?thesis
    by (auto simp: apply_order_def Let_def wf_users_update wf_users_password
        split: if_splits sum.splits option.splits)
qed

lemma verify_payment_wf_users:
  assumes "verify_payment env s body = (out, s')" and "wf_users (users s)"
  shows "wf_users (users s')"
  using assms apply_order_wf_users
  by (auto simp: verify_payment_def Let_def split: if_splits sum.splits)

lemma reachable_wf_users: "reachable s \<Longrightarrow> wf_users (users s)"
proof (induction rule: reachable.induct)
  case start
  show ?case by (simp add: wf_users_def)
next
  case (after_register s env body out s')
  then show ?case using register_wf_users by blast
next
  case (after_update_profile s env body out s')
  then show ?case using update_profile_wf_users by blast
next
  case (after_buy_product s env body out s')
  then show ?case using buy_product_wf_users by blast
next
  case (after_verify_payment s env body out s')
  then show ?case using verify_payment_wf_users by blast
qed

subsection \<open>The example data\<close>

lemma register_on_empty_store:
  "register example_env empty_store register_body =
     (Response 201 (message ''User registered successfully! Please log in.''), example_store)"
  by (simp add: register_def register_body_def example_store_def example_user_def
      example_env_def empty_store_def Let_def saveUsers_def)

lemma reachable_example_store: "reachable example_store"
  using reachable.after_register [OF reachable.start] register_on_empty_store
  by (simp add: empty_store_def)

lemma find_example_user: "find_user (users example_store) (str ''9000000001'') = Some 0"
  by (simp add: example_store_def example_user_def)

lemma find_credited_user: "find_user (users credited_store) (str ''9000000001'') = Some 0"
  by (simp add: credited_store_def credited_user_def example_user_def)

lemma expectedSignature_example:
  "expectedSignature example_env (utf16 ''order_1'') (utf16 ''pay_1'') = utf16 ''secretorder_1|pay_1''"
  by (simp add: expectedSignature_def example_env_def)

lemma expectedSignature_product:
  "expectedSignature product_env (utf16 ''order_1'') (utf16 ''pay_1'') = utf16 ''secretorder_1|pay_1''"
  by (simp add: expectedSignature_def product_env_def example_env_def)

lemma payment_fields_paid_body:
  "payment_fields example_env paid_body (utf16 ''order_1'') (utf16 ''pay_1'')
     (Str (expectedSignature example_env (utf16 ''order_1'') (utf16 ''pay_1'')))"
  by (simp add: payment_fields_def paid_body_def expectedSignature_example)

lemma payment_fields_forged_body:
  "payment_fields example_env forged_body (utf16 ''order_1'') (utf16 ''pay_1'') (str ''secretorder_1|pay_2'')"
  by (simp add: payment_fields_def forged_body_def)

lemma payment_fields_product_body:
  "payment_fields product_env product_body (utf16 ''order_1'') (utf16 ''pay_1'')
     (Str (expectedSignature product_env (utf16 ''order_1'') (utf16 ''pay_1'')))"
  by (simp add: payment_fields_def product_body_def expectedSignature_product)

lemma fetch_example_order:
  "orders_fetch example_env (prop_of paid_body ''razorpay_order_id'') = Inr example_order"
  by (simp add: example_env_def)

lemma fetch_product_order:
  "orders_fetch product_env (prop_of product_body ''razorpay_order_id'') = Inr product_order"
  by (simp add: product_env_def)

lemma notes_example_order:
  "get_prop example_order ''notes'' = Inr (object [(''phoneNumber'', str ''9000000001'')])"
  by (simp add: get_prop_def example_order_def)

lemma phone_example_order:
  "get_prop (object [(''phoneNumber'', str ''9000000001'')]) ''phoneNumber'' = Inr (str ''9000000001'')"
  by (simp add: get_prop_def)

lemma verify_paid_body:
  "verify_payment example_env example_store paid_body =
     (Response 200 top_up_response, credited_store)"
  by (simp add: verify_payment_def apply_order_def paid_body_def example_env_def example_store_def
      example_user_def example_order_def credited_store_def credited_user_def
      top_up_response_def expectedSignature_def saveUsers_def Let_def template_def)

section \<open>Payment verification\<close>

lemma payment_fields_body:
  "payment_fields env body order_id payment_id signature \<Longrightarrow> \<not> nullish body"
  by (cases body) (auto simp: payment_fields_def)

text \<open>With the three fields present, a signature that differs ends the request.\<close>

lemma verify_payment_mismatch:
  assumes "payment_fields env body order_id payment_id signature"
    and "signature \<noteq> Str (expectedSignature env order_id payment_id)"
  shows "verify_payment env s body = (Response 400 (failure ''Invalid signature.''), s)"
  using assms payment_fields_body [OF assms(1)]
  by (auto simp: verify_payment_def payment_fields_def Let_def)

text \<open>With the expected signature, the handler fetches the order and applies it.\<close>

lemma verify_payment_match:
  assumes "payment_fields env body order_id payment_id
             (Str (expectedSignature env order_id payment_id))"
  shows "verify_payment env s body =
     (case orders_fetch env (prop_of body ''razorpay_order_id'') of
        Inl error \<Rightarrow> (Response 500 (failure ''Could not update user balance.''), s)
      | Inr order \<Rightarrow>
          apply_order env s (prop_of body ''razorpay_order_id'') (prop_of body ''productData'')
            order)"
  using assms payment_fields_body [OF assms]
  by (auto simp: verify_payment_def payment_fields_def Let_def)

text \<open>Any success and any change of the store come from a request with the expected signature.\<close>

lemma verify_payment_effect:
  assumes "verify_payment env s body = (out, s')"
    and "s' \<noteq> s \<or> (\<exists>b. out = Response 200 b)"
  shows "\<exists>order_id payment_id.
     payment_fields env body order_id payment_id (Str (expectedSignature env order_id payment_id))"
  using assms
  by (auto simp: verify_payment_def payment_fields_def Let_def
      split: if_splits sum.splits)

text \<open>
  Claim C1. A request to verify-payment succeeds only if the submitted signature is the
  hex HMAC-SHA256, keyed by the server secret, of the order identifier, \<^verbatim>\<open>|\<close> and the
  payment identifier: whenever the handler answers 200 or changes the store, the request
  carries the three fields and its signature is that string. A request that carries the
  three fields with any other signature is answered 400 with the failure
  \<^verbatim>\<open>Invalid signature.\<close>, and the store (every balance and purchase list, and the file)
  is left as it was.
\<close>

theorem signature_check:
  "(verify_payment env s body = (out, s') \<and> (s' \<noteq> s \<or> (\<exists>b. out = Response 200 b)) \<longrightarrow>
      (\<exists>order_id payment_id.
         payment_fields env body order_id payment_id
           (Str (expectedSignature env order_id payment_id)))) \<and>
   (payment_fields env body order_id payment_id signature \<and>
    signature \<noteq> Str (expectedSignature env order_id payment_id) \<longrightarrow>
      verify_payment env s body = (Response 400 (failure ''Invalid signature.''), s))"
  using verify_payment_effect [of env s body out s']
    verify_payment_mismatch [of env body order_id payment_id signature s]
  by blast

theorem signature_check_witness:
  "verify_payment example_env example_store paid_body =
     (Response 200 top_up_response, credited_store) \<and>
   (\<exists>order_id payment_id.
      payment_fields example_env paid_body order_id payment_id
        (Str (expectedSignature example_env order_id payment_id))) \<and>
   payment_fields example_env forged_body (utf16 ''order_1'') (utf16 ''pay_1'') (str ''secretorder_1|pay_2'') \<and>
   str ''secretorder_1|pay_2'' \<noteq> Str (expectedSignature example_env (utf16 ''order_1'') (utf16 ''pay_1'')) \<and>
   verify_payment example_env example_store forged_body =
     (Response 400 (failure ''Invalid signature.''), example_store)"
proof -
  have 1: "verify_payment example_env example_store paid_body =
             (Response 200 top_up_response, credited_store) \<and>
           (credited_store \<noteq> example_store \<or>
            (\<exists>b. Response 200 top_up_response = Response 200 b))"
    using verify_paid_body by simp
  have 2: "payment_fields example_env forged_body (utf16 ''order_1'') (utf16 ''pay_1'')
             (str ''secretorder_1|pay_2'') \<and>
           str ''secretorder_1|pay_2'' \<noteq> Str (expectedSignature example_env (utf16 ''order_1'') (utf16 ''pay_1''))"
    using payment_fields_forged_body by (simp add: expectedSignature_example)
  from 1 2
    signature_check [of example_env example_store paid_body "Response 200 top_up_response"
      credited_store "utf16 ''order_1''" "utf16 ''pay_1''" "str ''secretorder_1|pay_2''"]
    signature_check [of example_env example_store forged_body "Response 200 top_up_response"
      credited_store "utf16 ''order_1''" "utf16 ''pay_1''" "str ''secretorder_1|pay_2''"]
  show ?thesis by blast
qed

subsection \<open>Applying a verified order\<close>

text \<open>The log line of a branch taken for a user that was found cannot throw.\<close>

lemma template_found:
  assumes "find_user us phone = Some i"
  shows "\<exists>line. template env [phone, Num n] = Inr line"
  using find_user_primitive [OF assms] by (intro template_primitive) simp

lemma apply_order_top_up:
  assumes "get_prop order ''notes'' = Inr notes"
    and "get_prop notes ''phoneNumber'' = Inr phone"
    and "find_user (users s) phone = Some i"
    and "\<not> (truthy productData \<and> prop_of notes ''purchaseType'' = str ''product'')"
    and "to_number env (prop_of order ''amount'') = Inr m"
  shows "apply_order env s oid productData order =
     (Response 200 (Json (object
        [(''status'', str ''success''), (''orderId'', oid),
         (''newBalance'', Num (js_add (user.balance (users s ! i)) (js_div m (Fin 100))))])),
      saveUsers env (s\<lparr>users := (users s)
         [i := (users s ! i)\<lparr>balance := js_add (user.balance (users s ! i)) (js_div m (Fin 100))\<rparr>]\<rparr>))"
proof -
  obtain line where
    "template env [phone, Num (js_add (user.balance (users s ! i)) (js_div m (Fin 100)))] = Inr line"
    using template_found [OF assms(3)] by blast
  then show ?thesis
    using assms by (auto simp: apply_order_def get_prop_def Let_def split: if_splits)
qed

lemma apply_order_product:
  assumes "get_prop order ''notes'' = Inr notes"
    and "get_prop notes ''phoneNumber'' = Inr phone"
    and "find_user (users s) phone = Some i"
    and "truthy productData" and "prop_of notes ''purchaseType'' = str ''product''"
    and "user.hashrate (users s ! i) = Some h"
    and "to_string env (prop_of productData ''name'') = Inr name"
  shows "apply_order env s oid productData order =
     (Response 200 (Json (object
        [(''status'', str ''success''), (''message'', str ''Product purchased successfully.'')])),
      saveUsers env (s\<lparr>users := (users s)
         [i := (users s ! i)\<lparr>hashrate := Some (h @ [productData])\<rparr>]\<rparr>))"
proof -
  obtain p where "to_string env phone = Inr p"
    using to_string_primitive [OF find_user_primitive [OF assms(3)]] by blast
  then have "template env [phone, prop_of productData ''name''] = Inr [p, name]"
    using assms(7) by (simp add: template_def)
  then show ?thesis
    using assms by (auto simp: apply_order_def get_prop_def Let_def split: if_splits)
qed

text \<open>One verified top-up, with what the next call will find in the store.\<close>

lemma top_up_once:
  assumes "payment_fields env body order_id payment_id
             (Str (expectedSignature env order_id payment_id))"
    and "orders_fetch env (prop_of body ''razorpay_order_id'') = Inr order"
    and "get_prop order ''notes'' = Inr notes"
    and "get_prop notes ''phoneNumber'' = Inr phone"
    and "find_user (users s) phone = Some i"
    and "prop_of notes ''purchaseType'' \<noteq> str ''product''"
    and "to_number env (prop_of order ''amount'') = Inr m"
  shows "\<exists>b s'. verify_payment env s body = (Response 200 b, s') \<and>
           users s' = (users s)
             [i := (users s ! i)\<lparr>balance := js_add (user.balance (users s ! i)) (js_div m (Fin 100))\<rparr>] \<and>
           find_user (users s') phone = Some i \<and>
           user.balance (users s' ! i) = js_add (user.balance (users s ! i)) (js_div m (Fin 100)) \<and>
           (writeFileSync_ok env \<longrightarrow> db_file s' = users s')"
proof -
  let ?us = "(users s)
    [i := (users s ! i)\<lparr>balance := js_add (user.balance (users s ! i)) (js_div m (Fin 100))\<rparr>]"
  let ?s' = "saveUsers env (s\<lparr>users := ?us\<rparr>)"
  from apply_order_top_up [OF assms(3) assms(4) assms(5) _ assms(7)] assms(6)
  have "\<exists>b. apply_order env s (prop_of body ''razorpay_order_id'') (prop_of body ''productData'')
          order = (Response 200 b, ?s')"
    by simp
  then obtain b where b: "verify_payment env s body = (Response 200 b, ?s')"
    using verify_payment_match [OF assms(1), of s] assms(2) by auto
  have i: "i < length (users s)" using assms(5) by (rule find_user_bound)
  have "find_user ?us phone = find_user (users s) phone"
    using i by (intro find_user_update) simp_all
  with b i assms(5) show ?thesis by simp
qed

text \<open>
  Claim C2. For a request to verify-payment with the expected signature, whose fetched
  order is not marked as a product purchase, whose notes carry the phone number of the
  user found at index \<open>i\<close> with balance \<open>B\<close>, and whose amount is \<open>M\<close> minor units: the
  handler answers 200, sets that user's balance to JavaScript's \<^verbatim>\<open>B + M / 100\<close> (the
  quotient and then the sum, each rounded to a double), leaves every other record as it
  was, and the file holds the new user collection (the write of \<^verbatim>\<open>saveUsers\<close>
  succeeding). Where \<open>M / 100\<close> and \<open>B + M / 100\<close> are doubles, the new balance is
  \<open>B + M / 100\<close> itself.
\<close>

theorem verified_top_up:
  assumes "payment_fields env body order_id payment_id
             (Str (expectedSignature env order_id payment_id))"
    and "orders_fetch env (prop_of body ''razorpay_order_id'') = Inr order"
    and "get_prop order ''notes'' = Inr notes"
    and "get_prop notes ''phoneNumber'' = Inr phone"
    and "find_user (users s) phone = Some i"
    and "prop_of notes ''purchaseType'' \<noteq> str ''product''"
    and "user.balance (users s ! i) = Fin B"
    and "prop_of order ''amount'' = Num (Fin M)"
    and "writeFileSync_ok env"
  shows "\<exists>b s' B'. verify_payment env s body = (Response 200 b, s') \<and>
           users s' = (users s)[i := (users s ! i)\<lparr>balance := B'\<rparr>] \<and>
           B' = js_add (Fin B) (js_div (Fin M) (Fin 100)) \<and>
           (is_double (M / 100) \<and> is_double (B + M / 100) \<longrightarrow> B' = Fin (B + M / 100)) \<and>
           db_file s' = users s'"
proof -
  have m: "to_number env (prop_of order ''amount'') = Inr (Fin M)"
    using assms(8) by simp
  have "is_double (M / 100) \<and> is_double (B + M / 100) \<longrightarrow>
          js_add (Fin B) (js_div (Fin M) (Fin 100)) = Fin (B + M / 100)"
    by (simp add: is_double_def)
  then show ?thesis
    using top_up_once [OF assms(1-6) m] assms(7) assms(9) by auto
qed

theorem verified_top_up_witness:
  "is_double (500 / 100) \<and> is_double (0 + 500 / 100) \<and>
   (\<exists>b s'. verify_payment example_env example_store paid_body = (Response 200 b, s') \<and>
      users s' = [example_user\<lparr>balance := Fin 5\<rparr>] \<and> db_file s' = users s')"
proof -
  have 6: "prop_of (object [(''phoneNumber'', str ''9000000001'')]) ''purchaseType'' \<noteq> str ''product''"
    by simp
  have 7: "user.balance (users example_store ! 0) = Fin 0"
    by (simp add: example_store_def example_user_def)
  have 8: "prop_of example_order ''amount'' = Num (Fin 500)"
    by (simp add: example_order_def)
  have 9: "writeFileSync_ok example_env"
    by (simp add: example_env_def)
  have 10: "is_double (500 / 100) \<and> is_double (0 + 500 / 100)"
    by (simp add: is_double_def)
  show ?thesis
    using verified_top_up [OF payment_fields_paid_body fetch_example_order notes_example_order
        phone_example_order find_example_user 6 7 8 9] 10
    by (auto simp: example_store_def)
qed

text \<open>
  Claim C4. Verification is not idempotent: under the conditions of a verified top-up of
  \<open>M\<close> minor units for a user with balance \<open>B\<close>, a second call with the same identifiers
  and signature is answered 200 again and credits the amount \<open>A\<close>, JavaScript's
  \<^verbatim>\<open>M / 100\<close>, a second time: the balance ends at \<^verbatim>\<open>(B + A) + A\<close>, which is \<open>B + 2 * (M / 100)\<close>
  where the three values computed on the way are doubles. Nothing records or rejects the
  order identifier already applied.
\<close>

theorem replay_credits_twice:
  assumes "payment_fields env body order_id payment_id
             (Str (expectedSignature env order_id payment_id))"
    and "orders_fetch env (prop_of body ''razorpay_order_id'') = Inr order"
    and "get_prop order ''notes'' = Inr notes"
    and "get_prop notes ''phoneNumber'' = Inr phone"
    and "find_user (users s) phone = Some i"
    and "prop_of notes ''purchaseType'' \<noteq> str ''product''"
    and "user.balance (users s ! i) = Fin B"
    and "prop_of order ''amount'' = Num (Fin M)"
  shows "\<exists>b1 s1 b2 s2 A.
           verify_payment env s body = (Response 200 b1, s1) \<and>
           verify_payment env s1 body = (Response 200 b2, s2) \<and>
           A = js_div (Fin M) (Fin 100) \<and>
           user.balance (users s2 ! i) = js_add (js_add (Fin B) A) A \<and>
           (is_double (M / 100) \<and> is_double (B + M / 100) \<and> is_double (B + 2 * (M / 100)) \<longrightarrow>
              user.balance (users s2 ! i) = Fin (B + 2 * (M / 100)))"
proof -
  let ?A = "js_div (Fin M) (Fin 100)"
  have m: "to_number env (prop_of order ''amount'') = Inr (Fin M)"
    using assms(8) by simp
  obtain b1 s1 where 1: "verify_payment env s body = (Response 200 b1, s1)"
      and f1: "find_user (users s1) phone = Some i"
      and bal1: "user.balance (users s1 ! i) = js_add (Fin B) ?A"
    using top_up_once [OF assms(1-6) m] assms(7) by auto
  obtain b2 s2 where 2: "verify_payment env s1 body = (Response 200 b2, s2)"
      and bal2: "user.balance (users s2 ! i) = js_add (js_add (Fin B) ?A) ?A"
    using top_up_once [OF assms(1-4) f1 assms(6) m] bal1 by auto
  have "js_add (js_add (Fin B) ?A) ?A = Fin (B + 2 * (M / 100))"
    if d: "is_double (M / 100) \<and> is_double (B + M / 100) \<and> is_double (B + 2 * (M / 100))"
  proof -
    have A: "?A = Fin (M / 100)"
      using d by (simp add: is_double_def)
    have "js_add (Fin B) (Fin (M / 100)) = Fin (B + M / 100)"
      using d by (simp add: is_double_def)
    moreover have "B + M / 100 + M / 100 = B + 2 * (M / 100)" by simp
    then have "js_add (Fin (B + M / 100)) (Fin (M / 100)) = round_double (B + 2 * (M / 100))"
      by (simp only: js_add.simps)
    ultimately show ?thesis
      using d A by (simp only: is_double_def)
  qed
  with 1 2 bal2 show ?thesis by auto
qed

theorem replay_credits_twice_witness:
  "is_double (500 / 100) \<and> is_double (0 + 500 / 100) \<and> is_double (0 + 2 * (500 / 100)) \<and>
   (\<exists>b1 s1 b2 s2.
     verify_payment example_env example_store paid_body = (Response 200 b1, s1) \<and>
     verify_payment example_env s1 paid_body = (Response 200 b2, s2) \<and>
     user.balance (users s2 ! 0) = Fin 10)"
proof -
  have 6: "prop_of (object [(''phoneNumber'', str ''9000000001'')]) ''purchaseType'' \<noteq> str ''product''"
    by simp
  have 7: "user.balance (users example_store ! 0) = Fin 0"
    by (simp add: example_store_def example_user_def)
  have 8: "prop_of example_order ''amount'' = Num (Fin 500)"
    by (simp add: example_order_def)
  have 10: "is_double (500 / 100) \<and> is_double (0 + 500 / 100) \<and> is_double (0 + 2 * (500 / 100))"
    by (simp add: is_double_def)
  show ?thesis
    using replay_credits_twice [OF payment_fields_paid_body fetch_example_order
        notes_example_order phone_example_order find_example_user 6 7 8] 10
    by auto
qed

text \<open>
  Claim C3, as the code has it. For a request to verify-payment with the expected
  signature that supplies a product payload (\<^verbatim>\<open>productData\<close> is truthy) whose \<^verbatim>\<open>name\<close>
  converts to a string, whose fetched order is marked \<^verbatim>\<open>purchaseType = 'product'\<close> and
  whose notes carry the phone number of the user found at index \<open>i\<close>, a user that has a
  purchase list \<open>h\<close>: the handler answers 200, appends the payload to that list, leaves
  the balance as it was, and the file holds the new user collection (the write of
  \<^verbatim>\<open>saveUsers\<close> succeeding).
\<close>

theorem verified_product_purchase:
  assumes "payment_fields env body order_id payment_id
             (Str (expectedSignature env order_id payment_id))"
    and "orders_fetch env (prop_of body ''razorpay_order_id'') = Inr order"
    and "get_prop order ''notes'' = Inr notes"
    and "get_prop notes ''phoneNumber'' = Inr phone"
    and "find_user (users s) phone = Some i"
    and "prop_of notes ''purchaseType'' = str ''product''"
    and "truthy (prop_of body ''productData'')"
    and "to_string env (prop_of (prop_of body ''productData'') ''name'') = Inr name"
    and "user.hashrate (users s ! i) = Some h"
    and "writeFileSync_ok env"
  shows "\<exists>b s'. verify_payment env s body = (Response 200 b, s') \<and>
           users s' = (users s)
             [i := (users s ! i)\<lparr>hashrate := Some (h @ [prop_of body ''productData''])\<rparr>] \<and>
           user.balance (users s' ! i) = user.balance (users s ! i) \<and>
           db_file s' = users s'"
proof -
  have "i < length (users s)" using assms(5) by (rule find_user_bound)
  then show ?thesis
    using apply_order_product [OF assms(3) assms(4) assms(5) assms(7) assms(6) assms(9) assms(8)]
      verify_payment_match [OF assms(1), of s] assms(2) assms(10)
    by simp
qed

theorem verified_product_purchase_witness:
  "\<exists>b s'. verify_payment product_env example_store product_body = (Response 200 b, s') \<and>
      users s' = [example_user\<lparr>hashrate := Some [miner]\<rparr>] \<and>
      user.balance (users s' ! 0) = Fin 0 \<and>
      db_file s' = users s'"
proof -
  have 3: "get_prop product_order ''notes'' = Inr product_notes"
    by (simp add: get_prop_def product_order_def)
  have 4: "get_prop product_notes ''phoneNumber'' = Inr (str ''9000000001'')"
    by (simp add: get_prop_def product_notes_def)
  have 6: "prop_of product_notes ''purchaseType'' = str ''product''"
    by (simp add: product_notes_def)
  have 7: "truthy (prop_of product_body ''productData'')"
    by (simp add: product_body_def miner_def)
  have 8: "to_string product_env (prop_of (prop_of product_body ''productData'') ''name'') =
      Inr (utf16 ''Miner'')"
    by (simp add: product_body_def miner_def)
  have 9: "user.hashrate (users example_store ! 0) = Some []"
    by (simp add: example_store_def example_user_def)
  have 10: "writeFileSync_ok product_env"
    by (simp add: product_env_def example_env_def)
  show ?thesis
    using verified_product_purchase [OF payment_fields_product_body fetch_product_order 3 4
        find_example_user 6 7 8 9 10]
    by (simp add: example_store_def example_user_def product_body_def)
qed

text \<open>
  The claim as stated fails for a request without a product payload: the order is marked
  as a product purchase, the user exists, and the handler credits the balance (from 0 to
  5) and appends nothing.
\<close>

theorem product_order_without_payload_counterexample:
  "prop_of (prop_of product_order ''notes'') ''purchaseType'' = str ''product'' \<and>
   orders_fetch product_env (prop_of paid_body ''razorpay_order_id'') = Inr product_order \<and>
   user.balance example_user = Fin 0 \<and>
   verify_payment product_env example_store paid_body =
     (Response 200 top_up_response, credited_store) \<and>
   user.balance credited_user = Fin 5 \<and>
   user.hashrate credited_user = user.hashrate example_user"
  by (simp add: product_order_def product_notes_def product_env_def example_env_def
      paid_body_def example_store_def example_user_def credited_store_def credited_user_def
      top_up_response_def verify_payment_def apply_order_def expectedSignature_def Let_def
      saveUsers_def template_def)

section \<open>Purchases paid from the balance\<close>

lemma buy_product_insufficient:
  assumes "find_user (users s) (prop_of body ''phoneNumber'') = Some i"
    and "truthy (prop_of body ''phoneNumber'')"
    and "user.balance (users s ! i) = Fin B"
    and "0 \<le> B"
    and "to_number env (prop_of (prop_of body ''productData'') ''price'') = Inr P"
    and "js_lt (Fin B) P"
  shows "buy_product env s body = (Response 402 (message ''Insufficient balance.''), s)"
proof -
  have pos: "js_lt (Fin 0) P"
    using assms(4) assms(6) by (rule above_non_negative)
  have P: "\<not> isNaN P" "\<not> js_le P (Fin 0)"
    using positive_number [OF pos] by simp_all
  have pd: "truthy (prop_of body ''productData'')"
    using assms(5) pos by (rule positive_price_object)
  have pr: "truthy (prop_of (prop_of body ''productData'') ''price'')"
    using assms(5) pos by (rule positive_number_truthy)
  have body: "\<not> nullish body"
    using assms(2) by (cases body) auto
  show ?thesis
    using assms P pd pr body truthy_not_nullish [OF pd]
    by (simp add: buy_product_def get_prop_def Let_def)
qed

lemma buy_product_success:
  assumes "find_user (users s) (prop_of body ''phoneNumber'') = Some i"
    and "user.balance (users s ! i) = Fin B"
    and "to_number env (prop_of (prop_of body ''productData'') ''price'') = Inr P"
    and "buy_product env s body = (Response 200 b, s')"
  shows "\<exists>p. P = Fin p \<and> 0 < p \<and> p \<le> B \<and>
           user.balance (users s' ! i) = js_sub (Fin B) (Fin p)"
proof -
  have i: "i < length (users s)" using assms(1) by (rule find_user_bound)
  show ?thesis
    using assms i
    by (cases P)
      (auto simp: buy_product_def get_prop_def Let_def js_le_def
        split: if_splits option.splits sum.splits)
qed

lemma js_sub_nonneg: "p \<le> B \<Longrightarrow> js_le (Fin 0) (js_sub (Fin B) (Fin p))"
  using round_double_nonneg [of "B - p"] by (simp add: js_sub_def)

text \<open>
  Claim C5. Let a request to buy-product name the user found at index \<open>i\<close>, whose
  balance is the number \<open>B\<close>, and let \<open>P\<close> be the numeric price \<^verbatim>\<open>Number(productData.price)\<close>.
  If \<open>P > B\<close> (the balance not negative), the handler answers 402 with
  \<^verbatim>\<open>Insufficient balance.\<close> and the store, so the balance and the purchase list, is as
  before. If the handler answers 200, the price is at most \<open>B\<close>, the new balance is
  JavaScript's \<^verbatim>\<open>B - P\<close> (the difference rounded to a double, \<open>B - P\<close> itself where that is
  a double) and it is not negative.
\<close>

theorem buy_product_keeps_balance_non_negative:
  assumes "find_user (users s) (prop_of body ''phoneNumber'') = Some i"
    and "user.balance (users s ! i) = Fin B"
    and "to_number env (prop_of (prop_of body ''productData'') ''price'') = Inr P"
  shows "(truthy (prop_of body ''phoneNumber'') \<and> 0 \<le> B \<and> js_lt (Fin B) P \<longrightarrow>
            buy_product env s body = (Response 402 (message ''Insufficient balance.''), s)) \<and>
         (\<forall>b s'. buy_product env s body = (Response 200 b, s') \<longrightarrow>
            (\<exists>p. P = Fin p \<and> p \<le> B \<and>
               user.balance (users s' ! i) = js_sub (Fin B) (Fin p) \<and>
               js_le (Fin 0) (user.balance (users s' ! i)) \<and>
               (is_double (B - p) \<longrightarrow> user.balance (users s' ! i) = Fin (B - p))))"
proof (intro conjI impI allI)
  assume "truthy (prop_of body ''phoneNumber'') \<and> 0 \<le> B \<and> js_lt (Fin B) P"
  then show "buy_product env s body = (Response 402 (message ''Insufficient balance.''), s)"
    using buy_product_insufficient [OF assms(1) _ assms(2) _ assms(3)] by simp
next
  fix b s'
  assume "buy_product env s body = (Response 200 b, s')"
  from buy_product_success [OF assms this]
  obtain p where p: "P = Fin p" "p \<le> B"
    "user.balance (users s' ! i) = js_sub (Fin B) (Fin p)"
    by blast
  have "is_double (B - p) \<longrightarrow> js_sub (Fin B) (Fin p) = Fin (B - p)"
    by (simp add: is_double_def js_sub_def)
  with p js_sub_nonneg [OF p(2)]
  show "\<exists>p. P = Fin p \<and> p \<le> B \<and>
               user.balance (users s' ! i) = js_sub (Fin B) (Fin p) \<and>
               js_le (Fin 0) (user.balance (users s' ! i)) \<and>
               (is_double (B - p) \<longrightarrow> user.balance (users s' ! i) = Fin (B - p))"
    by auto
qed

theorem buy_product_keeps_balance_non_negative_witness:
  "buy_product example_env example_store buy_body =
     (Response 402 (message ''Insufficient balance.''), example_store) \<and>
   buy_product example_env credited_store buy_body =
     (Response 200 (Json (object [(''success'', Bool True), (''newBalance'', Num (Fin 3))])),
      owner_store) \<and>
   (\<exists>p. Fin 2 = Fin p \<and> p \<le> 5 \<and> user.balance (users owner_store ! 0) = Fin (5 - p))"
proof -
  have phone: "prop_of buy_body ''phoneNumber'' = str ''9000000001''"
    by (simp add: buy_body_def)
  have price: "to_number example_env (prop_of (prop_of buy_body ''productData'') ''price'') =
      Inr (Fin 2)"
    by (simp add: buy_body_def miner_def)
  have 1: "find_user (users example_store) (prop_of buy_body ''phoneNumber'') = Some 0"
    using find_example_user phone by simp
  have 2: "user.balance (users example_store ! 0) = Fin 0"
    by (simp add: example_store_def example_user_def)
  have 3: "find_user (users credited_store) (prop_of buy_body ''phoneNumber'') = Some 0"
    using find_credited_user phone by simp
  have 4: "user.balance (users credited_store ! 0) = Fin 5"
    by (simp add: credited_store_def credited_user_def)
  have 5: "buy_product example_env credited_store buy_body =
     (Response 200 (Json (object [(''success'', Bool True), (''newBalance'', Num (Fin 3))])),
      owner_store)"
    by (simp add: buy_product_def buy_body_def miner_def credited_store_def credited_user_def
        example_user_def owner_store_def owner_user_def example_env_def get_prop_def
        js_le_def js_sub_def saveUsers_def template_def Let_def)
  have 6: "is_double (5 - 2)"
    by (simp add: is_double_def)
  show ?thesis
    using buy_product_keeps_balance_non_negative [OF 1 2 price]
      buy_product_keeps_balance_non_negative [OF 3 4 price] 5 6 phone
    by auto
qed

section \<open>Creating an order\<close>

lemma create_order_rejects:
  assumes "\<not> nullish body"
    and "nullish (prop_of body ''amount'') \<or>
         to_number env (prop_of body ''amount'') = Inr NaN \<or>
         (\<exists>n. to_number env (prop_of body ''amount'') = Inr n \<and> js_le n (Fin 0))"
  shows "\<exists>b. create_order env body = (Response 400 b, [])"
proof (cases "\<not> truthy (prop_of body ''currency'') \<or> \<not> truthy (prop_of body ''phoneNumber'')
    \<or> nullish (prop_of body ''amount'')")
  case True
  then show ?thesis using assms(1) by (simp add: create_order_def Let_def)
next
  case False
  with assms(2) obtain n where n: "to_number env (prop_of body ''amount'') = Inr n"
    and bad: "isNaN n \<or> js_le n (Fin 0)"
    by auto
  show ?thesis using assms(1) False n bad by (simp add: create_order_def Let_def)
qed

text \<open>A request that passes the checks reaches the gateway once, whatever it answers.\<close>

lemma create_order_calls_gateway:
  assumes "\<not> nullish body"
    and "truthy (prop_of body ''currency'')"
    and "truthy (prop_of body ''phoneNumber'')"
    and "to_number env (prop_of body ''amount'') = Inr A"
    and "js_lt (Fin 0) A"
  shows "\<exists>out options. create_order env body = (out, [options]) \<and>
           order_options.amount options = Math_round (js_mul A (Fin 100))"
proof -
  let ?notes1 = "set_prop (if truthy (prop_of body ''notes'') then prop_of body ''notes'' else object [])
                   ''phoneNumber'' (prop_of body ''phoneNumber'')"
  let ?options =
    "\<lparr>amount = Math_round (js_mul A (Fin 100)),
      currency = prop_of body ''currency'',
      receipt = utf16 ''receipt_order_'' @ NumberToString env (Fin (of_nat (getTime env))),
      notes_obj = (if truthy (prop_of body ''qrId'')
                   then set_prop ?notes1 ''qrId'' (prop_of body ''qrId'') else ?notes1)\<rparr>"
  have amount: "\<not> nullish (prop_of body ''amount'')"
    using positive_number_truthy [OF assms(4) assms(5)] by (rule truthy_not_nullish)
  note valid = assms amount positive_number [OF assms(5)]
  have "\<exists>out. create_order env body = (out, [?options])" (is "\<exists>out. ?P out")
  proof (cases "orders_create env ?options")
    case (Inr order)
    then show ?thesis using valid by (simp add: create_order_def Let_def)
  next
    case (Inl error)
    show ?thesis
    proof (cases "description error")
      case None
      with Inl show ?thesis using valid by (simp add: create_order_def Let_def)
    next
      case (Some d)
      with Inl show ?thesis using valid by (simp add: create_order_def Let_def)
    qed
  qed
  then obtain out where "?P out" ..
  moreover have "order_options.amount ?options = Math_round (js_mul A (Fin 100))" by simp
  ultimately show ?thesis by blast
qed

text \<open>
  Claim C8, as the code has it. A request to create-order whose amount is missing
  (\<^verbatim>\<open>undefined\<close> or \<^verbatim>\<open>null\<close>), or whose conversion \<^verbatim>\<open>Number(amount)\<close> is \<^verbatim>\<open>NaN\<close> or not
  positive, is answered 400 and the gateway is not called. A request that has a
  currency, a phone number and an amount whose conversion \<open>A\<close> is positive calls the
  gateway once, with the amount \<^verbatim>\<open>Math.round(A * 100)\<close>: where the double product is
  finite, an integer at most one half away from that product.
\<close>

theorem create_order_amount:
  assumes "\<not> nullish body"
  shows "(nullish (prop_of body ''amount'') \<or>
          to_number env (prop_of body ''amount'') = Inr NaN \<or>
          (\<exists>n. to_number env (prop_of body ''amount'') = Inr n \<and> js_le n (Fin 0)) \<longrightarrow>
            (\<exists>b. create_order env body = (Response 400 b, []))) \<and>
         (truthy (prop_of body ''currency'') \<and> truthy (prop_of body ''phoneNumber'') \<and>
          to_number env (prop_of body ''amount'') = Inr A \<and> js_lt (Fin 0) A \<longrightarrow>
            (\<exists>out options. create_order env body = (out, [options]) \<and>
               order_options.amount options = Math_round (js_mul A (Fin 100)) \<and>
               (\<forall>x. js_mul A (Fin 100) = Fin x \<longrightarrow>
                  (\<exists>k::int. order_options.amount options = Fin (of_int k) \<and>
                     \<bar>of_int k - x\<bar> \<le> 1 / 2))))"
proof (intro conjI impI)
  assume "nullish (prop_of body ''amount'') \<or>
          to_number env (prop_of body ''amount'') = Inr NaN \<or>
          (\<exists>n. to_number env (prop_of body ''amount'') = Inr n \<and> js_le n (Fin 0))"
  then show "\<exists>b. create_order env body = (Response 400 b, [])"
    by (rule create_order_rejects [OF assms])
next
  assume a: "truthy (prop_of body ''currency'') \<and> truthy (prop_of body ''phoneNumber'') \<and>
          to_number env (prop_of body ''amount'') = Inr A \<and> js_lt (Fin 0) A"
  then obtain out options where c: "create_order env body = (out, [options])"
    and r: "order_options.amount options = Math_round (js_mul A (Fin 100))"
    using create_order_calls_gateway [OF assms, of env A] by blast
  have "\<forall>x. js_mul A (Fin 100) = Fin x \<longrightarrow>
          (\<exists>k::int. order_options.amount options = Fin (of_int k) \<and> \<bar>of_int k - x\<bar> \<le> 1 / 2)"
    using r Math_round_nearest by simp
  with c r show "\<exists>out options. create_order env body = (out, [options]) \<and>
               order_options.amount options = Math_round (js_mul A (Fin 100)) \<and>
               (\<forall>x. js_mul A (Fin 100) = Fin x \<longrightarrow>
                  (\<exists>k::int. order_options.amount options = Fin (of_int k) \<and>
                     \<bar>of_int k - x\<bar> \<le> 1 / 2))"
    by blast
qed

theorem create_order_amount_witness:
  "(\<exists>b. create_order example_env negative_order_body = (Response 400 b, [])) \<and>
   (\<exists>out options. create_order example_env order_body = (out, [options]) \<and>
      order_options.amount options = Fin 250)"
proof -
  have 1: "\<not> nullish negative_order_body"
    by (simp add: negative_order_body_def)
  have 2: "to_number example_env (prop_of negative_order_body ''amount'') = Inr (Fin (- 1)) \<and>
           js_le (Fin (- 1)) (Fin 0)"
    by (simp add: negative_order_body_def js_le_def)
  have 3: "\<not> nullish order_body"
    by (simp add: order_body_def)
  have 4: "truthy (prop_of order_body ''currency'') \<and> truthy (prop_of order_body ''phoneNumber'') \<and>
           to_number example_env (prop_of order_body ''amount'') = Inr (Fin (5 / 2)) \<and>
           js_lt (Fin 0) (Fin (5 / 2))"
    by (simp add: order_body_def)
  have 5: "Math_round (js_mul (Fin (5 / 2)) (Fin 100)) = Fin 250"
    by (simp add: floor_eq_iff)
  show ?thesis
    using create_order_amount [OF 1, of example_env "Fin (5 / 2)"] 2
      create_order_amount [OF 3, of example_env "Fin (5 / 2)"] 4 5
    by auto
qed

text \<open>
  The claim as stated fails twice. The amount \<^verbatim>\<open>true\<close> is not a number, yet
  \<^verbatim>\<open>Number(true)\<close> is 1 and the gateway is called with the amount 100. And for the amount
  \<^verbatim>\<open>0.155\<close> (the double nearest to it, which is below 0.155) the product with 100 is rounded
  to the double 15.5, so the gateway is called with the amount 16, more than one half
  away from the hundredfold of the amount.
\<close>

theorem create_order_amount_counterexample:
  "prop_of boolean_order_body ''amount'' = Bool True \<and>
   create_order example_env boolean_order_body =
     (Response 200 (Json (object [(''id'', str ''order_1'')])),
      [\<lparr>amount = Fin 100, currency = str ''INR'', receipt = utf16 ''receipt_order_0'',
        notes_obj = object [(''phoneNumber'', str ''9000000001'')]\<rparr>]) \<and>
   prop_of fraction_order_body ''amount'' = Num (Fin (5584463537939415 / 2 ^ 55)) \<and>
   create_order example_env fraction_order_body =
     (Response 200 (Json (object [(''id'', str ''order_1'')])),
      [\<lparr>amount = Fin 16, currency = str ''INR'', receipt = utf16 ''receipt_order_0'',
        notes_obj = object [(''phoneNumber'', str ''9000000001'')]\<rparr>]) \<and>
   \<not> \<bar>16 - 5584463537939415 / 2 ^ 55 * 100\<bar> \<le> (1 / 2 :: rat)"
proof -
  have 1: "round_double (5584463537939415 / 2 ^ 55 * 100) = Fin (31 / 2)"
    by code_simp
  have 2: "\<lfloor>(31 / 2 :: rat) + 1 / 2\<rfloor> = 16"
    by (simp add: floor_eq_iff)
  have 3: "\<not> \<bar>16 - 5584463537939415 / 2 ^ 55 * 100\<bar> \<le> (1 / 2 :: rat)"
    by simp
  have 4: "create_order example_env boolean_order_body =
     (Response 200 (Json (object [(''id'', str ''order_1'')])),
      [\<lparr>amount = Fin 100, currency = str ''INR'', receipt = utf16 ''receipt_order_0'',
        notes_obj = object [(''phoneNumber'', str ''9000000001'')]\<rparr>])"
    by (simp add: create_order_def boolean_order_body_def example_env_def js_le_def Let_def
        floor_eq_iff)
  have 5: "create_order example_env fraction_order_body =
     (Response 200 (Json (object [(''id'', str ''order_1'')])),
      [\<lparr>amount = Fin 16, currency = str ''INR'', receipt = utf16 ''receipt_order_0'',
        notes_obj = object [(''phoneNumber'', str ''9000000001'')]\<rparr>])"
    using 1 2
    by (simp add: create_order_def fraction_order_body_def example_env_def js_le_def Let_def
        floor_eq_iff)
  show ?thesis
    using 3 4 5 by (simp add: boolean_order_body_def fraction_order_body_def)
qed

section \<open>Passwords\<close>

lemma register_short_password:
  assumes "prop_of body ''password'' = Str p" and "length p < 8"
  shows "\<exists>b. register env s body = (Response 400 b, s)"
  using assms prop_of_not_nullish [OF assms(1)]
  by (simp add: register_def Let_def)

lemma update_profile_short_password:
  assumes "prop_of body ''newPassword'' = Str p" and "length p < 8"
  shows "\<exists>b. update_profile env s body = (Response 400 b, s)"
  using assms prop_of_not_nullish [OF assms(1)]
  by (simp add: update_profile_def Let_def)

text \<open>
  Claim C9, as the code has it. A password that is a string of fewer than 8 UTF-16 code
  units (its \<^verbatim>\<open>length\<close>) is rejected with status 400: a request to register with such a
  password leaves the store as it was, so no record is created, and a request to
  update-profile with such a new password leaves the store as it was, so the stored
  password is unchanged.
\<close>

theorem short_password_rejected:
  "length p < 8 \<Longrightarrow>
     (prop_of body ''password'' = Str p \<longrightarrow>
        (\<exists>b. register env s body = (Response 400 b, s))) \<and>
     (prop_of body' ''newPassword'' = Str p \<longrightarrow>
        (\<exists>b. update_profile env s body' = (Response 400 b, s)))"
  using register_short_password update_profile_short_password by blast

theorem short_password_rejected_witness:
  "length (utf16 ''1234567'') < 8 \<and>
   prop_of short_register_body ''password'' = str ''1234567'' \<and>
   (\<exists>b. register example_env example_store short_register_body =
      (Response 400 b, example_store)) \<and>
   prop_of short_update_body ''newPassword'' = str ''1234567'' \<and>
   (\<exists>b. update_profile example_env example_store short_update_body =
      (Response 400 b, example_store))"
  using short_password_rejected [of "utf16 ''1234567''" short_register_body example_env example_store
      short_update_body]
  by (simp add: short_register_body_def short_update_body_def)

text \<open>
  The claim as stated fails for a password that is not a string, and for a string of
  characters outside the basic plane. The number \<^verbatim>\<open>1234\<close> has no \<^verbatim>\<open>length\<close>, the comparison
  of \<^verbatim>\<open>undefined\<close> with 8 is false, and the password of four digits is registered, and
  replaces the stored password of a profile. A password of four characters that take
  two code units each has the \<^verbatim>\<open>length\<close> 8 and is registered.
\<close>

theorem short_password_counterexample:
  "prop_of numeric_register_body ''password'' = Num (Fin 1234) \<and>
   register example_env empty_store numeric_register_body =
     (Response 201 (message ''User registered successfully! Please log in.''),
      \<lparr>users = [example_user\<lparr>password := Num (Fin 1234)\<rparr>],
       db_file = [example_user\<lparr>password := Num (Fin 1234)\<rparr>]\<rparr>) \<and>
   prop_of numeric_update_body ''newPassword'' = Num (Fin 1234) \<and>
   update_profile example_env example_store numeric_update_body =
     (Response 200 (message ''Password updated successfully!''),
      \<lparr>users = [example_user\<lparr>password := Num (Fin 1234)\<rparr>],
       db_file = [example_user\<lparr>password := Num (Fin 1234)\<rparr>]\<rparr>) \<and>
   prop_of astral_register_body ''password'' = Str astral_password \<and>
   code_points astral_password = 4 \<and>
   register example_env empty_store astral_register_body =
     (Response 201 (message ''User registered successfully! Please log in.''),
      \<lparr>users = [example_user\<lparr>password := Str astral_password\<rparr>],
       db_file = [example_user\<lparr>password := Str astral_password\<rparr>]\<rparr>)"
proof -
  have 1: "code_points astral_password = 4"
    by (simp add: astral_password_def high_surrogate_def low_surrogate_def)
  have 2: "length astral_password = 8" "astral_password \<noteq> []"
    by (simp_all add: astral_password_def)
  have 3: "register example_env empty_store astral_register_body =
     (Response 201 (message ''User registered successfully! Please log in.''),
      \<lparr>users = [example_user\<lparr>password := Str astral_password\<rparr>],
       db_file = [example_user\<lparr>password := Str astral_password\<rparr>]\<rparr>)"
    using 2
    by (simp add: astral_register_body_def register_def example_env_def empty_store_def
        example_user_def saveUsers_def Let_def)
  have 4: "prop_of numeric_register_body ''password'' = Num (Fin 1234) \<and>
   register example_env empty_store numeric_register_body =
     (Response 201 (message ''User registered successfully! Please log in.''),
      \<lparr>users = [example_user\<lparr>password := Num (Fin 1234)\<rparr>],
       db_file = [example_user\<lparr>password := Num (Fin 1234)\<rparr>]\<rparr>) \<and>
   prop_of numeric_update_body ''newPassword'' = Num (Fin 1234) \<and>
   update_profile example_env example_store numeric_update_body =
     (Response 200 (message ''Password updated successfully!''),
      \<lparr>users = [example_user\<lparr>password := Num (Fin 1234)\<rparr>],
       db_file = [example_user\<lparr>password := Num (Fin 1234)\<rparr>]\<rparr>)"
    by (simp add: numeric_register_body_def numeric_update_body_def register_def
        update_profile_def example_env_def empty_store_def example_store_def example_user_def
        saveUsers_def Let_def)
  show ?thesis
    using 1 3 4 by (simp add: astral_register_body_def)
qed

section \<open>Export\<close>

lemma named_product_name:
  "named_product product \<Longrightarrow> \<exists>name. get_prop product ''name'' = Inr (Str name)"
  by (auto simp: named_product_def get_prop_def split: jsval.splits)

lemma export_row_shape:
  assumes "export_row env u = Inr row"
  shows "\<exists>cell. row = object [(''id'', Num (Fin (of_nat (user_id u)))),
                            (''phoneNumber'', user.phoneNumber u),
                            (''balance'', Num (user.balance u)),
                            (''invitationCode'', user.invitationCode u),
                            (''hashrate'', Str cell)] \<and>
           (user.hashrate u = None \<or> user.hashrate u = Some [] \<longrightarrow> cell = utf16 ''None'') \<and>
           (\<forall>products. user.hashrate u = Some products \<and> products \<noteq> [] \<longrightarrow>
              (\<exists>names. map_exn (\<lambda>product. get_prop product ''name'') products = Inr names \<and>
                 join env (utf16 '', '') names = Inr cell))"
  using assms
  by (auto simp: export_row_def products_cell_def split: sum.splits option.splits if_splits)

text \<open>Purchase lists of named products always give a cell.\<close>

lemma products_cell_total:
  assumes "\<And>products. user.hashrate u = Some products \<Longrightarrow> list_all named_product products"
  shows "\<exists>cell. products_cell env u = Inr cell"
proof (cases "user.hashrate u")
  case None
  then show ?thesis by (simp add: products_cell_def)
next
  case (Some products)
  then have np: "list_all named_product products" by (rule assms)
  have "\<exists>names. map_exn (\<lambda>product. get_prop product ''name'') products = Inr names"
    using np by (intro map_exn_total) (auto simp: list_all_iff dest: named_product_name)
  then obtain names where names: "map_exn (\<lambda>product. get_prop product ''name'') products = Inr names"
    by blast
  have "\<exists>strs. map_exn (join_element env) names = Inr strs"
  proof (rule map_exn_total)
    fix x assume "x \<in> set names"
    then obtain j where j: "j < length names" "x = names ! j" by (auto simp: in_set_conv_nth)
    have len: "length names = length products" using names by (rule map_exn_length)
    have "get_prop (products ! j) ''name'' = Inr x"
      using map_exn_nth [OF names, of j] j len by simp
    moreover have "named_product (products ! j)"
      using np j len by (simp add: list_all_length)
    ultimately obtain name where "x = Str name"
      using named_product_name by fastforce
    then show "\<exists>y. join_element env x = Inr y" by (simp add: join_element_def)
  qed
  then show ?thesis using Some names
    by (auto simp: products_cell_def join_def)
qed

lemma export_users_total:
  assumes "users s \<noteq> []"
    and "\<And>u products. u \<in> set (users s) \<Longrightarrow> user.hashrate u = Some products \<Longrightarrow>
           list_all named_product products"
  shows "\<exists>rows. export_users env s = Response 200 (Xlsx columns rows)"
proof -
  have "\<exists>rows. map_exn (export_row env) (users s) = Inr rows"
  proof (rule map_exn_total)
    fix u assume "u \<in> set (users s)"
    then obtain cell where "products_cell env u = Inr cell"
      using products_cell_total [of u env] assms(2) by blast
    then show "\<exists>y. export_row env u = Inr y" by (simp add: export_row_def)
  qed
  then show ?thesis using assms(1) by (auto simp: export_users_def)
qed

lemma export_users_rows:
  assumes "export_users env s = Response 200 (Xlsx cols rows)"
  shows "cols = columns \<and> map_exn (export_row env) (users s) = Inr rows"
  using assms by (auto simp: export_users_def split: if_splits sum.splits)



section \<open>Registration and login\<close>

lemma register_existing_phone:
  assumes "primitive N" and "u \<in> set (users s)" and "user.phoneNumber u = N"
    and "prop_of body ''phoneNumber'' = N"
  shows "snd (register env s body) = s"
proof (cases "truthy N")
  case False
  with assms(4) show ?thesis by (simp add: register_def Let_def)
next
  case True
  then have "strict_eq (user.phoneNumber u) N"
    using assms(1,3) by (simp add: strict_eq_refl)
  then have "find_user (users s) N \<noteq> None"
    using assms(2) by (rule find_user_member [rotated])
  with assms(4) show ?thesis
    by (auto simp: register_def Let_def split: sum.splits)
qed

lemma register_conflict:
  assumes "primitive N" and "u \<in> set (users s)" and "user.phoneNumber u = N"
    and "prop_of body ''phoneNumber'' = N" and "truthy N"
    and "prop_of body ''password'' = Str p" and "8 \<le> length p"
    and "truthy (prop_of body ''invitationCode'')"
  shows "register env s body =
           (Response 409 (message ''User with this phone number already exists.''), s)"
proof -
  have "strict_eq (user.phoneNumber u) N"
    using assms(1,3,5) by (simp add: strict_eq_refl)
  then have "find_user (users s) N \<noteq> None"
    using assms(2) by (rule find_user_member [rotated])
  moreover have "\<not> nullish body" using assms(6) by (rule prop_of_not_nullish)
  moreover have "p \<noteq> []" using assms(7) by auto
  ultimately show ?thesis
    using assms(4-8) by (auto simp: register_def Let_def)
qed

text \<open>
  Claim C6, as the code has it. Let some user record have the phone number \<open>N\<close>, a
  string, number or boolean. A request to register with the phone number \<open>N\<close> leaves the
  store as it was, so it adds no record; when the request passes the checks made before
  the lookup (the three fields are present and the password has at least 8 characters),
  it is answered 409. In every store the server reaches from the empty one, at most one
  record has the phone number \<open>N\<close>.
\<close>

theorem registration_keeps_phone_numbers_unique:
  "(primitive N \<and> u \<in> set (users s) \<and> user.phoneNumber u = N \<and>
    prop_of body ''phoneNumber'' = N \<longrightarrow>
      snd (register env s body) = s \<and>
      (truthy N \<and> prop_of body ''password'' = Str p \<and> 8 \<le> length p \<and>
       truthy (prop_of body ''invitationCode'') \<longrightarrow>
         register env s body =
           (Response 409 (message ''User with this phone number already exists.''), s))) \<and>
   (reachable s' \<and> primitive N \<longrightarrow>
      length (filter (\<lambda>u. user.phoneNumber u = N) (users s')) \<le> 1)"
  using register_existing_phone [of N u s body env] register_conflict [of N u s body p env]
    wf_users_at_most_one [of "users s'" N] reachable_wf_users [of s']
  by blast

theorem registration_keeps_phone_numbers_unique_witness:
  "primitive (str ''9000000001'') \<and>
   example_user \<in> set (users example_store) \<and>
   register example_env example_store register_body =
     (Response 409 (message ''User with this phone number already exists.''), example_store) \<and>
   reachable example_store \<and>
   length (filter (\<lambda>u. user.phoneNumber u = str ''9000000001'') (users example_store)) \<le> 1"
proof -
  have 1: "primitive (str ''9000000001'') \<and> example_user \<in> set (users example_store) \<and>
      user.phoneNumber example_user = str ''9000000001'' \<and>
      prop_of register_body ''phoneNumber'' = str ''9000000001''"
    by (simp add: example_store_def example_user_def register_body_def)
  have 2: "truthy (str ''9000000001'') \<and> prop_of register_body ''password'' = str ''12345678'' \<and>
      8 \<le> length (utf16 ''12345678'') \<and> truthy (prop_of register_body ''invitationCode'')"
    by (simp add: register_body_def)
  show ?thesis
    using registration_keeps_phone_numbers_unique [of "str ''9000000001''" example_user
        example_store register_body example_env "utf16 ''12345678''" example_store]
      1 2 reachable_example_store
    by blast
qed

text \<open>
  The claim as stated fails twice. A request for a phone number that is already
  registered, with a password of 7 characters, is answered 400, not 409. And a phone
  number sent as an array is registered twice: the second request is answered 201 and
  the store then holds two records with that phone number.
\<close>

theorem registration_conflict_counterexample:
  "user.phoneNumber example_user = str ''9000000001'' \<and>
   users example_store = [example_user] \<and>
   prop_of short_register_body ''phoneNumber'' = str ''9000000001'' \<and>
   register example_env example_store short_register_body =
     (Response 400 (message ''Password must be at least 8 characters long.''), example_store) \<and>
   fst (register example_env (snd (register example_env empty_store array_phone_body))
          array_phone_body) =
     Response 201 (message ''User registered successfully! Please log in.'') \<and>
   map user.phoneNumber
     (users (snd (register example_env (snd (register example_env empty_store array_phone_body))
        array_phone_body))) =
     [Arr [str ''9000000001''], Arr [str ''9000000001'']]"
  by (simp add: example_user_def example_store_def short_register_body_def register_def
      example_env_def empty_store_def array_phone_body_def Let_def saveUsers_def)

subsection \<open>Login\<close>

lemma login_success_iff:
  assumes "wf_users (users s)"
    and "prop_of body ''phoneNumber'' = Str phone"
    and "prop_of body ''password'' = Str pw"
  shows "(\<exists>b. login s body = Response 200 b) \<longleftrightarrow>
         (\<exists>u \<in> set (users s). user.phoneNumber u = Str phone \<and> user.password u = Str pw)"
proof
  assume "\<exists>b. login s body = Response 200 b"
  then obtain i where i: "find_user (users s) (Str phone) = Some i"
    and pw: "user.password (users s ! i) = Str pw"
    using assms(2,3)
    by (auto simp: login_def Let_def message_def split: if_splits option.splits)
  from find_user_Some [OF i]
  have "i < length (users s)" "user.phoneNumber (users s ! i) = Str phone"
    by simp_all
  with pw show "\<exists>u \<in> set (users s). user.phoneNumber u = Str phone \<and> user.password u = Str pw"
    by (metis nth_mem)
next
  assume "\<exists>u \<in> set (users s). user.phoneNumber u = Str phone \<and> user.password u = Str pw"
  then obtain k where k: "k < length (users s)" "user.phoneNumber (users s ! k) = Str phone"
    "user.password (users s ! k) = Str pw"
    by (auto simp: in_set_conv_nth)
  have t: "phone \<noteq> []" "pw \<noteq> []"
    using assms(1) k by (auto simp: wf_users_def list_all_length)
  have "find_user (users s) (Str phone) \<noteq> None"
    using k by (intro find_user_member [of "users s ! k"]) simp_all
  then obtain i where i: "find_user (users s) (Str phone) = Some i" by blast
  from find_user_Some [OF i] have i': "i < length (users s)"
    "user.phoneNumber (users s ! i) = Str phone"
    "\<forall>j<i. \<not> strict_eq (user.phoneNumber (users s ! j)) (Str phone)"
    by simp_all
  have "i = k"
  proof (rule ccontr)
    assume "i \<noteq> k"
    with i'(3) k(2) have "i < k" by (metis linorder_neqE_nat strict_eq_Str_right)
    then have "\<not> strict_eq (map user.phoneNumber (users s) ! i) (map user.phoneNumber (users s) ! k)"
      using assms(1) k(1) by (intro no_duplicate_nth) (simp_all add: wf_users_def)
    with i' k \<open>i < k\<close> show False by simp
  qed
  moreover have "\<not> nullish body" using assms(2) by (rule prop_of_not_nullish)
  ultimately show "\<exists>b. login s body = Response 200 b"
    using assms(2,3) i k t by (simp add: login_def Let_def)
qed

lemma login_success_body:
  assumes "login s body = Response 200 b"
  shows "\<exists>u \<in> set (users s). \<exists>payload.
           b = Json (object [(''message'', str ''Login successful!''), (''user'', payload)]) \<and>
           payload = object [(''phoneNumber'', user.phoneNumber u),
                          (''balance'', Num (user.balance u))] \<and>
           utf16 ''password'' \<notin> set (keys payload)"
proof -
  from assms obtain i where i: "find_user (users s) (prop_of body ''phoneNumber'') = Some i"
    and b: "b = Json (object [(''message'', str ''Login successful!''),
                          (''user'', object [(''phoneNumber'', user.phoneNumber (users s ! i)),
                                          (''balance'', Num (user.balance (users s ! i)))])])"
    by (auto simp: login_def Let_def message_def split: if_splits option.splits)
  from find_user_bound [OF i] have "users s ! i \<in> set (users s)" by simp
  with b show ?thesis by auto
qed



end
